theory Spec2Isabelle
  imports Main "HOL-Library.Word"
begin

section \<open>JavaScript values\<close>

text \<open>
  A JavaScript string is a sequence of UTF-16 code units, and \<open>s.length\<close> counts
  code units. String literals of the source are written through \<open>ascii\<close>.
\<close>

type_synonym jsstring = "16 word list"

definition ascii :: "string \<Rightarrow> jsstring" where
  "ascii s = map of_char s"

definition dquote :: "16 word" where
  "dquote = 0x22"

definition backslash :: "16 word" where
  "backslash = 0x5C"

definition squote :: "16 word" where
  "squote = 0x27"

text \<open>
  The values that reach the program from outside are deserialised JSON. A number whose
  value is an integer is \<open>JNum\<close> of that integer; every other number (a fraction, an
  overflow to infinity) is \<open>JDouble\<close> of an opaque label. \<open>undefined\<close>, which
  is not JSON, is \<open>None\<close> of \<open>json option\<close>.
\<close>

datatype json =
    JNull
  | JBool bool
  | JNum int
  | JDouble nat
  | JStr jsstring
  | JArr "json list"
  | JObj "(jsstring \<times> json) list"

text \<open>\<open>obj.key\<close> on an object: the own property, or \<open>undefined\<close>.\<close>

definition field :: "(jsstring \<times> json) list \<Rightarrow> string \<Rightarrow> json option" where
  "field obj k = map_of obj (ascii k)"

text \<open>Truthiness, as \<open>!x\<close>, \<open>x || y\<close> and \<open>if (x)\<close> test it.\<close>

fun truthy :: "json option \<Rightarrow> bool" where
  "truthy None = False"
| "truthy (Some JNull) = False"
| "truthy (Some (JBool b)) = b"
| "truthy (Some (JNum n)) = (n \<noteq> 0)"
| "truthy (Some (JDouble k)) = True"
| "truthy (Some (JStr s)) = (s \<noteq> [])"
| "truthy (Some (JArr xs)) = True"
| "truthy (Some (JObj kvs)) = True"

text \<open>\<open>Array.prototype.join\<close> on strings.\<close>

fun join :: "jsstring \<Rightarrow> jsstring list \<Rightarrow> jsstring" where
  "join sep [] = []"
| "join sep [x] = x"
| "join sep (x # y # ys) = x @ sep @ join sep (y # ys)"

text \<open>Decimal digits of a natural number.\<close>

fun digits :: "nat \<Rightarrow> jsstring" where
  "digits n =
     (if n < 10 then [of_nat (48 + n)]
      else digits (n div 10) @ [of_nat (48 + n mod 10)])"

declare digits.simps [simp del]

text \<open>
  What a \<open>throw\<close> carries: an \<open>Error\<close> instance with its \<open>message\<close>, or a value that
  is not an \<open>Error\<close>.
\<close>

datatype thrown = Error jsstring | NonError json

section \<open>The validation library\<close>

text \<open>
  The schema of the source is interpreted by the zod library (version 3): every issue has
  a code, a path and a message. A message given in the schema is used as it is; the other
  messages come from the library's error map, a parameter of the model.
\<close>

datatype issue_code = invalid_type | too_small | too_big | invalid_enum_value

datatype zod_issue =
  Issue (code: issue_code) (path: "jsstring list") (issue_message: jsstring)

datatype unmessaged_issue =
    InvalidType jsstring "json option"
  | InvalidEnumValue "jsstring list" jsstring

type_synonym errorMap = "unmessaged_issue \<Rightarrow> jsstring"

definition getParsedType :: "json option \<Rightarrow> jsstring" where
  "getParsedType v =
     (case v of
        None \<Rightarrow> ascii ''undefined''
      | Some JNull \<Rightarrow> ascii ''null''
      | Some (JBool b) \<Rightarrow> ascii ''boolean''
      | Some (JNum n) \<Rightarrow> ascii ''number''
      | Some (JDouble k) \<Rightarrow> ascii ''number''
      | Some (JStr s) \<Rightarrow> ascii ''string''
      | Some (JArr xs) \<Rightarrow> ascii ''array''
      | Some (JObj kvs) \<Rightarrow> ascii ''object'')"

definition joinValues :: "jsstring list \<Rightarrow> jsstring" where
  "joinValues vals = join (ascii '' | '') (map (\<lambda>v. [squote] @ v @ [squote]) vals)"

text \<open>The library's default (English) error map, on the two issues left to it here.\<close>

fun zod_errorMap :: errorMap where
  "zod_errorMap (InvalidType expected received) =
     (if received = None then ascii ''Required''
      else ascii ''Expected '' @ expected @ ascii '', received '' @ getParsedType received)"
| "zod_errorMap (InvalidEnumValue opts received) =
     ascii ''Invalid enum value. Expected '' @ joinValues opts @
     ascii '', received '' @ [squote] @ received @ [squote]"

section \<open>Configuration and the input schema\<close>

record config =
  BOT_TOKEN :: jsstring
  CHAT_ID :: jsstring

definition TELEGRAM_API_BASE :: jsstring where
  "TELEGRAM_API_BASE = ascii ''https://api.telegram.org''"

record SendMessageInput =
  message :: jsstring
  parse_mode :: "jsstring option"

definition parse_modes :: "jsstring list" where
  "parse_modes = [ascii ''HTML'', ascii ''Markdown'', ascii ''MarkdownV2'']"

text \<open>
  \<open>z.string().min(1, ...).max(4096, ...)\<close> on the value of the key \<open>message\<close>: a value
  that is not a string aborts with an \<open>invalid_type\<close> issue; on a string both length
  checks run, on \<open>length\<close>, the number of UTF-16 code units.
\<close>

definition message_schema :: "errorMap \<Rightarrow> json option \<Rightarrow> jsstring option \<times> zod_issue list" where
  "message_schema em v =
     (case v of
        Some (JStr s) \<Rightarrow>
          (Some s,
           (if length s < 1
            then [Issue too_small [ascii ''message''] (ascii ''Message cannot be empty'')]
            else []) @
           (if length s > 4096
            then [Issue too_big [ascii ''message'']
                    (ascii ''Message exceeds Telegram's 4096 character limit'')]
            else []))
      | _ \<Rightarrow>
          (None, [Issue invalid_type [ascii ''message'']
                    (em (InvalidType (ascii ''string'') v))]))"

text \<open>
  \<open>z.enum([...]).optional()\<close> on the value of the key \<open>parse_mode\<close>: \<open>undefined\<close> is
  accepted; any other value must be one of the three strings.
\<close>

definition parse_mode_schema ::
  "errorMap \<Rightarrow> json option \<Rightarrow> jsstring option option \<times> zod_issue list" where
  "parse_mode_schema em v =
     (case v of
        None \<Rightarrow> (Some None, [])
      | Some (JStr s) \<Rightarrow>
          (if s \<in> set parse_modes then (Some (Some s), [])
           else (None, [Issue invalid_enum_value [ascii ''parse_mode'']
                          (em (InvalidEnumValue parse_modes s))]))
      | _ \<Rightarrow>
          (None, [Issue invalid_type [ascii ''parse_mode'']
                    (em (InvalidType (joinValues parse_modes) v))]))"

text \<open>
  \<open>SendMessageSchema.parse(toolInput)\<close>: the keys of the shape are checked in their
  order, unknown keys are dropped, and the issues of both keys are thrown together as one
  \<open>ZodError\<close> (\<open>Inl\<close>).
\<close>

definition SendMessageSchema_parse ::
  "errorMap \<Rightarrow> (jsstring \<times> json) list \<Rightarrow> zod_issue list + SendMessageInput" where
  "SendMessageSchema_parse em toolInput =
     (case (message_schema em (field toolInput ''message''),
            parse_mode_schema em (field toolInput ''parse_mode'')) of
        ((Some m, []), (Some pm, [])) \<Rightarrow> Inr \<lparr>message = m, parse_mode = pm\<rparr>
      | ((_, is1), (_, is2)) \<Rightarrow> Inl (is1 @ is2))"

section \<open>The world outside the program\<close>

text \<open>
  The HTTP clients of the three variants of the sender, the shell, the JSON parser, the
  wording of the engine's \<open>TypeError\<close>s and the decimal form of the numbers that are
  not integers below \<open>2 ^ 53\<close> in magnitude (rounding, exponents, fractions) are
  parameters: a \<open>runtime\<close> says what each of them answers. A call that throws answers
  \<open>Inl\<close>.
\<close>

record fetch_init =
  http_method :: jsstring
  headers :: "(jsstring \<times> jsstring) list"
  body :: jsstring

record fetch_response =
  status :: nat
  json_result :: "thrown + json"

definition response_ok :: "fetch_response \<Rightarrow> bool" where
  "response_ok r = (200 \<le> status r \<and> status r \<le> 299)"

record axios_response =
  axios_status :: nat
  data :: json

datatype axios_thrown =
    AxiosError jsstring "axios_response option"
  | OtherThrown thrown

record runtime =
  errorMap :: errorMap
  execSync :: "jsstring \<Rightarrow> thrown + jsstring"
  JSON_parse :: "jsstring \<Rightarrow> thrown + json"
  JSON_stringify :: "json \<Rightarrow> jsstring"
  TypeError_message :: "json option \<Rightarrow> string \<Rightarrow> jsstring"
  ToPrimitive_message :: jsstring
  Number_toString :: "json \<Rightarrow> jsstring"
  fetch :: "jsstring \<Rightarrow> fetch_init \<Rightarrow> thrown + fetch_response"
  axios_post :: "jsstring \<Rightarrow> (jsstring \<times> jsstring) list \<Rightarrow> axios_thrown + axios_response"

text \<open>The outbound calls a function makes, in order.\<close>

datatype effect =
    ExecSync jsstring
  | Fetch jsstring fetch_init
  | AxiosPost jsstring "(jsstring \<times> jsstring) list"

section \<open>String conversion\<close>

text \<open>The conversions of the elements of an array, in order: the first one that throws.\<close>

fun collect :: "(thrown + jsstring) list \<Rightarrow> thrown + jsstring list" where
  "collect [] = Inr []"
| "collect (r # rs) =
     (case r of
        Inl e \<Rightarrow> Inl e
      | Inr s \<Rightarrow> (case collect rs of Inl e \<Rightarrow> Inl e | Inr ss \<Rightarrow> Inr (s # ss)))"

text \<open>
  The string conversion of a value in a template literal \<open>`${v}`\<close>. An integer below
  \<open>2 ^ 53\<close> in magnitude is its decimal numeral. An array is the conversions of its
  elements joined by commas, \<open>null\<close> counting as the empty string there (the flag
  says that the value is an array element). A parsed object inherits \<open>toString\<close> and
  is \<open>[object Object]\<close>, unless it has a key \<open>toString\<close> of its own: its value is
  no function, and the conversion throws a \<open>TypeError\<close>.
\<close>

fun ToString :: "runtime \<Rightarrow> bool \<Rightarrow> json \<Rightarrow> thrown + jsstring" where
  "ToString rt el JNull = Inr (if el then [] else ascii ''null'')"
| "ToString rt el (JBool b) = Inr (if b then ascii ''true'' else ascii ''false'')"
| "ToString rt el (JNum n) =
     Inr (if \<bar>n\<bar> < 2 ^ 53
          then (if n < 0 then ascii ''-'' @ digits (nat (- n)) else digits (nat n))
          else Number_toString rt (JNum n))"
| "ToString rt el (JDouble k) = Inr (Number_toString rt (JDouble k))"
| "ToString rt el (JStr s) = Inr s"
| "ToString rt el (JArr xs) =
     (case collect (map (ToString rt True) xs) of
        Inl e \<Rightarrow> Inl e
      | Inr ss \<Rightarrow> Inr (join (ascii '','') ss))"
| "ToString rt el (JObj kvs) =
     (if field kvs ''toString'' = None then Inr (ascii ''[object Object]'')
      else Inl (Error (ToPrimitive_message rt)))"

definition template :: "runtime \<Rightarrow> json option \<Rightarrow> thrown + jsstring" where
  "template rt v =
     (case v of None \<Rightarrow> Inr (ascii ''undefined'') | Some j \<Rightarrow> ToString rt False j)"

text \<open>
  \<open>v.key\<close> on any value: a \<open>TypeError\<close> on \<open>null\<close> and \<open>undefined\<close>, the own
  property on an object, \<open>undefined\<close> on the other values (for the keys the program
  reads: \<open>ok\<close>, \<open>description\<close>, \<open>result\<close>, \<open>message_id\<close>).
\<close>

definition read_property :: "runtime \<Rightarrow> json option \<Rightarrow> string \<Rightarrow> thrown + json option" where
  "read_property rt v k =
     (case v of
        None \<Rightarrow> Inl (Error (TypeError_message rt v k))
      | Some JNull \<Rightarrow> Inl (Error (TypeError_message rt v k))
      | Some (JObj kvs) \<Rightarrow> Inr (field kvs k)
      | Some _ \<Rightarrow> Inr None)"

text \<open>\<open>v?.key\<close>: \<open>undefined\<close> on \<open>null\<close> and \<open>undefined\<close> instead of the error.\<close>

definition optional_property :: "json option \<Rightarrow> string \<Rightarrow> json option" where
  "optional_property v k = (case v of Some (JObj kvs) \<Rightarrow> field kvs k | _ \<Rightarrow> None)"

definition api_url :: "config \<Rightarrow> jsstring" where
  "api_url cfg = TELEGRAM_API_BASE @ ascii ''/bot'' @ BOT_TOKEN cfg @ ascii ''/sendMessage''"

section \<open>The sender, shell variant (src/index.ts)\<close>

text \<open>\<open>message.replace(/"/g, '\\"')\<close>\<close>

definition replace_dquotes :: "jsstring \<Rightarrow> jsstring" where
  "replace_dquotes s = concat (map (\<lambda>c. if c = dquote then [backslash, dquote] else [c]) s)"

definition curl_command :: "config \<Rightarrow> jsstring \<Rightarrow> jsstring option \<Rightarrow> jsstring" where
  "curl_command cfg msg pm =
     (let url = api_url cfg;
          curlCmd = ascii ''curl -s -X POST '' @ [dquote] @ url @ [dquote];
          curlCmd = curlCmd @ ascii '' -d '' @ [dquote] @ ascii ''chat_id='' @ CHAT_ID cfg @ [dquote];
          curlCmd = curlCmd @ ascii '' -d '' @ [dquote] @ ascii ''text='' @ replace_dquotes msg @ [dquote]
      in case pm of
           None \<Rightarrow> curlCmd
         | Some p \<Rightarrow>
             if p \<noteq> [] then curlCmd @ ascii '' -d '' @ [dquote] @ ascii ''parse_mode='' @ p @ [dquote]
             else curlCmd)"

text \<open>
  The rest of the \<open>try\<close> block, from the output of the command on. Of the lines
  written to the log, the two that convert \<open>responseData.ok\<close> and
  \<open>responseData.description\<close> to strings and the one that converts
  \<open>result.message_id\<close> are kept for what they can throw; their output is left out.
\<close>

definition read_response :: "runtime \<Rightarrow> jsstring \<Rightarrow> thrown + jsstring" where
  "read_response rt responseStr =
     (case JSON_parse rt responseStr of
        Inl e \<Rightarrow> Inl e
      | Inr responseData \<Rightarrow>
     (case read_property rt (Some responseData) ''ok'' of
        Inl e \<Rightarrow> Inl e
      | Inr ok \<Rightarrow>
     (case template rt ok of
        Inl e \<Rightarrow> Inl e
      | Inr ok_logged \<Rightarrow>
     (case read_property rt (Some responseData) ''description'' of
        Inl e \<Rightarrow> Inl e
      | Inr description \<Rightarrow>
     (case template rt description of
        Inl e \<Rightarrow> Inl e
      | Inr description_logged \<Rightarrow>
          if \<not> truthy ok then
            (case (if truthy description then template rt description
                   else Inr (ascii ''Unknown error'')) of
               Inl e \<Rightarrow> Inl e
             | Inr errorDesc \<Rightarrow> Inl (Error (ascii ''Telegram API error: '' @ errorDesc)))
          else
            (case read_property rt (Some responseData) ''result'' of
               Inl e \<Rightarrow> Inl e
             | Inr result \<Rightarrow>
            (case read_property rt result ''message_id'' of
               Inl e \<Rightarrow> Inl e
             | Inr message_id \<Rightarrow>
            (case template rt message_id of
               Inl e \<Rightarrow> Inl e
             | Inr message_id_logged \<Rightarrow>
            (case template rt message_id of
               Inl e \<Rightarrow> Inl e
             | Inr s \<Rightarrow>
                 Inr (ascii ''Message sent successfully to Telegram. Message ID: '' @
                      s))))))))))"

text \<open>The \<open>catch\<close> block: an \<open>Error\<close> is thrown again as it is.\<close>

definition catch_send :: "runtime \<Rightarrow> thrown \<Rightarrow> thrown" where
  "catch_send rt err =
     (case err of
        Error m \<Rightarrow> Error m
      | NonError j \<Rightarrow> Error (ascii ''Unknown error: '' @ JSON_stringify rt j))"

definition sendTelegramMessage ::
  "runtime \<Rightarrow> config \<Rightarrow> jsstring \<Rightarrow> jsstring option \<Rightarrow> effect list \<times> (thrown + jsstring)" where
  "sendTelegramMessage rt cfg msg pm =
     (let curlCmd = curl_command cfg msg pm
      in ([ExecSync curlCmd],
          case (case execSync rt curlCmd of
                  Inl e \<Rightarrow> Inl e
                | Inr responseStr \<Rightarrow> read_response rt responseStr) of
            Inl err \<Rightarrow> Inl (catch_send rt err)
          | Inr s \<Rightarrow> Inr s))"

section \<open>The sender, fetch variant (dist/index.js)\<close>

definition json_params :: "config \<Rightarrow> jsstring \<Rightarrow> jsstring option \<Rightarrow> (jsstring \<times> json) list" where
  "json_params cfg msg pm =
     (let params = [(ascii ''chat_id'', JStr (CHAT_ID cfg)), (ascii ''text'', JStr msg)]
      in case pm of
           None \<Rightarrow> params
         | Some p \<Rightarrow> if p \<noteq> [] then params @ [(ascii ''parse_mode'', JStr p)] else params)"

definition fetch_request :: "runtime \<Rightarrow> config \<Rightarrow> jsstring \<Rightarrow> jsstring option \<Rightarrow> fetch_init" where
  "fetch_request rt cfg msg pm =
     \<lparr>http_method = ascii ''POST'',
      headers = [(ascii ''Content-Type'', ascii ''application/json'')],
      body = JSON_stringify rt (JObj (json_params cfg msg pm))\<rparr>"

definition read_fetch_response :: "runtime \<Rightarrow> fetch_response \<Rightarrow> thrown + jsstring" where
  "read_fetch_response rt response =
     (if \<not> response_ok response then
        (case json_result response of
           Inl e \<Rightarrow> Inl e
         | Inr errorData \<Rightarrow>
        (case read_property rt (Some errorData) ''description'' of
           Inl e \<Rightarrow> Inl e
         | Inr description \<Rightarrow>
        (case (if truthy description then template rt description
               else Inr (ascii ''HTTP '' @ digits (status response) @ ascii '' error'')) of
           Inl e \<Rightarrow> Inl e
         | Inr errorMessage \<Rightarrow>
             Inl (Error (ascii ''Telegram API error: '' @ errorMessage)))))
      else
        (case json_result response of
           Inl e \<Rightarrow> Inl e
         | Inr dat \<Rightarrow>
        (case read_property rt (Some dat) ''ok'' of
           Inl e \<Rightarrow> Inl e
         | Inr ok \<Rightarrow>
             if \<not> truthy ok then
               (case read_property rt (Some dat) ''description'' of
                  Inl e \<Rightarrow> Inl e
                | Inr description \<Rightarrow>
               (case (if truthy description then template rt description
                      else Inr (ascii ''Unknown error'')) of
                  Inl e \<Rightarrow> Inl e
                | Inr errorDesc \<Rightarrow>
                    Inl (Error (ascii ''Telegram API returned error: '' @ errorDesc))))
             else
               (case read_property rt (Some dat) ''result'' of
                  Inl e \<Rightarrow> Inl e
                | Inr result \<Rightarrow>
               (case read_property rt result ''message_id'' of
                  Inl e \<Rightarrow> Inl e
                | Inr message_id \<Rightarrow>
               (case template rt message_id of
                  Inl e \<Rightarrow> Inl e
                | Inr s \<Rightarrow>
                    Inr (ascii ''Message sent successfully to Telegram. Message ID: '' @
                         s)))))))"

text \<open>The \<open>catch\<close> block of this variant wraps every failure.\<close>

definition catch_send_dist :: "thrown \<Rightarrow> thrown" where
  "catch_send_dist err =
     (case err of
        Error m \<Rightarrow> Error (ascii ''Failed to send Telegram message: '' @ m)
      | NonError j \<Rightarrow> Error (ascii ''Failed to send Telegram message: Unknown error''))"

definition sendTelegramMessage_dist ::
  "runtime \<Rightarrow> config \<Rightarrow> jsstring \<Rightarrow> jsstring option \<Rightarrow> effect list \<times> (thrown + jsstring)" where
  "sendTelegramMessage_dist rt cfg msg pm =
     (let url = api_url cfg;
          init = fetch_request rt cfg msg pm
      in ([Fetch url init],
          case (case fetch rt url init of
                  Inl e \<Rightarrow> Inl e
                | Inr response \<Rightarrow> read_fetch_response rt response) of
            Inl err \<Rightarrow> Inl (catch_send_dist err)
          | Inr s \<Rightarrow> Inr s))"

section \<open>The sender, axios variant\<close>

definition axios_params :: "config \<Rightarrow> jsstring \<Rightarrow> jsstring option \<Rightarrow> (jsstring \<times> jsstring) list" where
  "axios_params cfg msg pm =
     (let params = [(ascii ''chat_id'', CHAT_ID cfg), (ascii ''text'', msg)]
      in case pm of
           None \<Rightarrow> params
         | Some p \<Rightarrow> if p \<noteq> [] then params @ [(ascii ''parse_mode'', p)] else params)"

definition read_axios_response :: "runtime \<Rightarrow> axios_response \<Rightarrow> thrown + jsstring" where
  "read_axios_response rt response =
     (case read_property rt (Some (data response)) ''ok'' of
        Inl e \<Rightarrow> Inl e
      | Inr ok \<Rightarrow>
          if \<not> truthy ok then
            (case read_property rt (Some (data response)) ''description'' of
               Inl e \<Rightarrow> Inl e
             | Inr description \<Rightarrow>
            (case (if truthy description then template rt description
                   else Inr (ascii ''Unknown error'')) of
               Inl e \<Rightarrow> Inl e
             | Inr errorDesc \<Rightarrow>
                 Inl (Error (ascii ''Telegram API returned error: '' @ errorDesc))))
          else
            (case read_property rt (Some (data response)) ''result'' of
               Inl e \<Rightarrow> Inl e
             | Inr result \<Rightarrow>
            (case read_property rt result ''message_id'' of
               Inl e \<Rightarrow> Inl e
             | Inr message_id \<Rightarrow>
            (case template rt message_id of
               Inl e \<Rightarrow> Inl e
             | Inr s \<Rightarrow>
                 Inr (ascii ''Message sent successfully to Telegram. Message ID: '' @
                      s)))))"

text \<open>
  The \<open>catch\<close> block: for an error of the client,
  \<open>error.response?.data?.description || error.message || "Unknown error"\<close>, converted
  to a string for the log and for the new error. A conversion that throws leaves the
  block with its \<open>TypeError\<close>.
\<close>

definition catch_send_axios :: "runtime \<Rightarrow> axios_thrown \<Rightarrow> thrown" where
  "catch_send_axios rt err =
     (case err of
        AxiosError m response \<Rightarrow>
          (let description =
                 (case response of
                    None \<Rightarrow> None
                  | Some r \<Rightarrow> optional_property (Some (data r)) ''description'')
           in case (if truthy description then template rt description
                    else if m \<noteq> [] then Inr m
                    else Inr (ascii ''Unknown error'')) of
                Inl e \<Rightarrow> e
              | Inr errorMessage \<Rightarrow>
                  Error (ascii ''Failed to send Telegram message: '' @ errorMessage))
      | OtherThrown (Error m) \<Rightarrow> Error (ascii ''Failed to send Telegram message: '' @ m)
      | OtherThrown (NonError j) \<Rightarrow>
          Error (ascii ''Failed to send Telegram message: Unknown error''))"

definition sendTelegramMessage_axios ::
  "runtime \<Rightarrow> config \<Rightarrow> jsstring \<Rightarrow> jsstring option \<Rightarrow> effect list \<times> (thrown + jsstring)" where
  "sendTelegramMessage_axios rt cfg msg pm =
     (let url = api_url cfg;
          params = axios_params cfg msg pm
      in ([AxiosPost url params],
          case (case axios_post rt url params of
                  Inl e \<Rightarrow> Inl e
                | Inr response \<Rightarrow>
                    (case read_axios_response rt response of
                       Inl e \<Rightarrow> Inl (OtherThrown e)
                     | Inr s \<Rightarrow> Inr s)) of
            Inl err \<Rightarrow> Inl (catch_send_axios rt err)
          | Inr s \<Rightarrow> Inr s))"

section \<open>The gateway\<close>

record TextContent =
  tc_type :: jsstring
  tc_text :: jsstring

text \<open>What the \<open>catch\<close> of \<open>processToolCall\<close> can receive.\<close>

datatype caught = ZodError "zod_issue list" | Thrown thrown

text \<open>The \<open>try\<close> block, with the sender of the variant as a parameter.\<close>

definition validate_and_send ::
  "runtime \<Rightarrow> (jsstring \<Rightarrow> jsstring option \<Rightarrow> effect list \<times> (thrown + jsstring)) \<Rightarrow>
   (jsstring \<times> json) list \<Rightarrow> effect list \<times> (caught + jsstring)" where
  "validate_and_send rt send toolInput =
     (case SendMessageSchema_parse (errorMap rt) toolInput of
        Inl issues \<Rightarrow> ([], Inl (ZodError issues))
      | Inr validInput \<Rightarrow>
          (case send (message validInput) (parse_mode validInput) of
             (fx, Inl e) \<Rightarrow> (fx, Inl (Thrown e))
           | (fx, Inr result) \<Rightarrow> (fx, Inr result)))"

text \<open>The \<open>catch\<close> block of src/index.ts: every failure is prefixed with \<open>Error: \<close>.\<close>

definition errorMessage_of :: "runtime \<Rightarrow> caught \<Rightarrow> jsstring" where
  "errorMessage_of rt err =
     (case err of
        ZodError issues \<Rightarrow>
          ascii ''Invalid input: '' @ join (ascii '', '') (map issue_message issues)
      | Thrown (Error m) \<Rightarrow> m
      | Thrown (NonError j) \<Rightarrow> JSON_stringify rt j)"

definition processToolCall ::
  "runtime \<Rightarrow> config \<Rightarrow> jsstring \<Rightarrow> (jsstring \<times> json) list \<Rightarrow>
   effect list \<times> (thrown + TextContent)" where
  "processToolCall rt cfg toolName toolInput =
     (if toolName = ascii ''send_message'' then
        (case validate_and_send rt (sendTelegramMessage rt cfg) toolInput of
           (fx, Inr result) \<Rightarrow> (fx, Inr \<lparr>tc_type = ascii ''text'', tc_text = result\<rparr>)
         | (fx, Inl err) \<Rightarrow>
             (fx, Inr \<lparr>tc_type = ascii ''text'',
                       tc_text = ascii ''Error: '' @ errorMessage_of rt err\<rparr>))
      else ([], Inr \<lparr>tc_type = ascii ''text'', tc_text = ascii ''Unknown tool: '' @ toolName\<rparr>))"

text \<open>The \<open>catch\<close> block of the two other variants: a validation failure has no prefix.\<close>

definition catch_text_dist :: "caught \<Rightarrow> jsstring" where
  "catch_text_dist err =
     (case err of
        ZodError issues \<Rightarrow>
          ascii ''Invalid input: '' @ join (ascii '', '') (map issue_message issues)
      | Thrown (Error m) \<Rightarrow> ascii ''Error: '' @ m
      | Thrown (NonError j) \<Rightarrow> ascii ''Error: Unknown error occurred'')"

definition processToolCall_dist ::
  "runtime \<Rightarrow> config \<Rightarrow> jsstring \<Rightarrow> (jsstring \<times> json) list \<Rightarrow>
   effect list \<times> (thrown + TextContent)" where
  "processToolCall_dist rt cfg toolName toolInput =
     (if toolName = ascii ''send_message'' then
        (case validate_and_send rt (sendTelegramMessage_dist rt cfg) toolInput of
           (fx, Inr result) \<Rightarrow> (fx, Inr \<lparr>tc_type = ascii ''text'', tc_text = result\<rparr>)
         | (fx, Inl err) \<Rightarrow> (fx, Inr \<lparr>tc_type = ascii ''text'', tc_text = catch_text_dist err\<rparr>))
      else ([], Inr \<lparr>tc_type = ascii ''text'', tc_text = ascii ''Unknown tool: '' @ toolName\<rparr>))"

definition processToolCall_axios ::
  "runtime \<Rightarrow> config \<Rightarrow> jsstring \<Rightarrow> (jsstring \<times> json) list \<Rightarrow>
   effect list \<times> (thrown + TextContent)" where
  "processToolCall_axios rt cfg toolName toolInput =
     (if toolName = ascii ''send_message'' then
        (case validate_and_send rt (sendTelegramMessage_axios rt cfg) toolInput of
           (fx, Inr result) \<Rightarrow> (fx, Inr \<lparr>tc_type = ascii ''text'', tc_text = result\<rparr>)
         | (fx, Inl err) \<Rightarrow> (fx, Inr \<lparr>tc_type = ascii ''text'', tc_text = catch_text_dist err\<rparr>))
      else ([], Inr \<lparr>tc_type = ascii ''text'', tc_text = ascii ''Unknown tool: '' @ toolName\<rparr>))"

text \<open>
  The handler of tool calls (src/index.ts): \<open>request.params.arguments || {}\<close>, and the
  reply \<open>{ content: [result] }\<close>, which has no \<open>isError\<close> member.
\<close>

record CallToolRequest =
  name :: jsstring
  arguments :: "(jsstring \<times> json) list option"

record CallToolResult =
  content :: "TextContent list"
  isError :: "bool option"

definition CallTool_handler ::
  "runtime \<Rightarrow> config \<Rightarrow> CallToolRequest \<Rightarrow> effect list \<times> (thrown + CallToolResult)" where
  "CallTool_handler rt cfg request =
     (case processToolCall rt cfg (name request)
             (case arguments request of None \<Rightarrow> [] | Some args \<Rightarrow> args) of
        (fx, Inl e) \<Rightarrow> (fx, Inl e)
      | (fx, Inr result) \<Rightarrow> (fx, Inr \<lparr>content = [result], isError = None\<rparr>))"

section \<open>Startup (src/index.ts)\<close>

text \<open>\<open>process.env.X || ""\<close>\<close>

definition env_or_empty :: "jsstring option \<Rightarrow> jsstring" where
  "env_or_empty v = (case v of None \<Rightarrow> [] | Some s \<Rightarrow> if s \<noteq> [] then s else [])"

definition yes_no :: "jsstring \<Rightarrow> jsstring" where
  "yes_no s = (if s \<noteq> [] then ascii ''yes'' else ascii ''no'')"

text \<open>
  The top of the module: the lines written to the error stream, and either the exit code
  of \<open>process.exit\<close> or the two constants.
\<close>

definition startup :: "(string \<Rightarrow> jsstring option) \<Rightarrow> jsstring list \<times> (int + config)" where
  "startup env =
     (let bot_token = env_or_empty (env ''TELEGRAM_BOT_TOKEN'');
          chat_id = env_or_empty (env ''TELEGRAM_CHAT_ID'');
          out = [ascii ''[INIT] BOT_TOKEN loaded: '' @ yes_no bot_token,
                 ascii ''[INIT] CHAT_ID loaded: '' @ yes_no chat_id]
      in if bot_token = [] \<or> chat_id = [] then
           (out @ [ascii ''Error: TELEGRAM_BOT_TOKEN and TELEGRAM_CHAT_ID environment variables are required''],
            Inl 1)
         else (out, Inr \<lparr>BOT_TOKEN = bot_token, CHAT_ID = chat_id\<rparr>))"

text \<open>
  The process: the handler is installed, and the transport connected, only after the
  check of the environment; each request is then answered with the same constants.
\<close>

record process_run =
  stderr :: "jsstring list"
  exit_code :: "int option"
  replies :: "(effect list \<times> (thrown + CallToolResult)) list"

definition run_server ::
  "runtime \<Rightarrow> (string \<Rightarrow> jsstring option) \<Rightarrow> CallToolRequest list \<Rightarrow> process_run" where
  "run_server rt env requests =
     (case startup env of
        (out, Inl c) \<Rightarrow> \<lparr>stderr = out, exit_code = Some c, replies = []\<rparr>
      | (out, Inr cfg) \<Rightarrow>
          \<lparr>stderr = out, exit_code = None, replies = map (CallTool_handler rt cfg) requests\<rparr>)"

section \<open>The specification's reading of the schema\<close>

text \<open>
  The specification measures a message in Unicode code points: a high surrogate followed
  by a low surrogate is one character.
\<close>

definition is_high_surrogate :: "16 word \<Rightarrow> bool" where
  "is_high_surrogate c = (0xD800 \<le> c \<and> c \<le> 0xDBFF)"

definition is_low_surrogate :: "16 word \<Rightarrow> bool" where
  "is_low_surrogate c = (0xDC00 \<le> c \<and> c \<le> 0xDFFF)"

fun codepoint_length :: "jsstring \<Rightarrow> nat" where
  "codepoint_length [] = 0"
| "codepoint_length [c] = 1"
| "codepoint_length (c # d # cs) =
     (if is_high_surrogate c \<and> is_low_surrogate d then Suc (codepoint_length cs)
      else Suc (codepoint_length (d # cs)))"

text \<open>
  The specification's valid request: a message of 1 to 4096 characters, and a parse mode
  that is absent or one of the three literals.
\<close>

definition spec_valid_arguments :: "(jsstring \<times> json) list \<Rightarrow> bool" where
  "spec_valid_arguments args =
     (case field args ''message'' of
        Some (JStr m) \<Rightarrow>
          1 \<le> codepoint_length m \<and> codepoint_length m \<le> 4096 \<and>
          (case field args ''parse_mode'' of
             None \<Rightarrow> True
           | Some (JStr p) \<Rightarrow> p \<in> set parse_modes
           | Some _ \<Rightarrow> False)
      | _ \<Rightarrow> False)"

text \<open>
  The specification's reasons of a failure: the message is missing, empty or longer than
  4096 characters, or the parse mode is present and not one of the three literals.
\<close>

definition spec_validation_fails :: "(jsstring \<times> json) list \<Rightarrow> bool" where
  "spec_validation_fails args =
     ((case field args ''message'' of
         None \<Rightarrow> True
       | Some (JStr m) \<Rightarrow> m = [] \<or> 4096 < codepoint_length m
       | Some _ \<Rightarrow> False) \<or>
      (case field args ''parse_mode'' of
         None \<Rightarrow> False
       | Some (JStr p) \<Rightarrow> p \<notin> set parse_modes
       | Some _ \<Rightarrow> True))"

text \<open>
  The decimal numeral of a natural number, as the specification's \<open><message_id>\<close>
  reads: digits only, no leading zero, and the value.
\<close>

definition decimal_value :: "jsstring \<Rightarrow> nat" where
  "decimal_value ds = foldl (\<lambda>a c. 10 * a + (unat c - 48)) 0 ds"

definition is_decimal_numeral :: "jsstring \<Rightarrow> nat \<Rightarrow> bool" where
  "is_decimal_numeral ds k =
     (ds \<noteq> [] \<and> list_all (\<lambda>c. 0x30 \<le> c \<and> c \<le> 0x39) ds \<and>
      (ds = [0x30] \<or> hd ds \<noteq> 0x30) \<and> decimal_value ds = k)"

section \<open>Fixtures\<close>

text \<open>4096 emoji (U+1F600): 4096 characters, 8192 code units.\<close>

definition astral_message :: jsstring where
  "astral_message = concat (replicate 4096 [0xD83D, 0xDE00])"

definition sample_config :: config where
  "sample_config = \<lparr>BOT_TOKEN = ascii ''123:ABC'', CHAT_ID = ascii ''42''\<rparr>"

text \<open>The wording of V8 for a property read on \<open>null\<close> or \<open>undefined\<close>.\<close>

definition v8_TypeError_message :: "json option \<Rightarrow> string \<Rightarrow> jsstring" where
  "v8_TypeError_message v k =
     ascii ''Cannot read properties of '' @
     (case v of None \<Rightarrow> ascii ''undefined'' | Some j \<Rightarrow> ascii ''null'') @
     ascii '' (reading '' @ [squote] @ ascii k @ [squote] @ ascii '')''"

text \<open>
  A fake remote that answers every request with HTTP status \<open>st\<close> and the JSON body
  \<open>reply\<close> (the client of the axios variant throws on a status outside 200 to 299).
\<close>

definition fake_remote :: "nat \<Rightarrow> json \<Rightarrow> runtime" where
  "fake_remote st reply =
     \<lparr>errorMap = zod_errorMap,
      execSync = (\<lambda>cmd. Inr []),
      JSON_parse = (\<lambda>s. Inr reply),
      JSON_stringify = (\<lambda>j. []),
      TypeError_message = v8_TypeError_message,
      ToPrimitive_message = ascii ''Cannot convert object to primitive value'',
      Number_toString = (\<lambda>j. ascii ''Infinity''),
      fetch = (\<lambda>url init. Inr \<lparr>status = st, json_result = Inr reply\<rparr>),
      axios_post = (\<lambda>url params.
        if 200 \<le> st \<and> st \<le> 299 then Inr \<lparr>axios_status = st, data = reply\<rparr>
        else Inl (AxiosError (ascii ''Request failed with status code '' @ digits st)
                    (Some \<lparr>axios_status = st, data = reply\<rparr>)))\<rparr>"

text \<open>A remote that cannot be reached: every transport throws an \<open>Error\<close>.\<close>

definition unreachable_remote :: runtime where
  "unreachable_remote =
     \<lparr>errorMap = zod_errorMap,
      execSync = (\<lambda>cmd. Inl (Error (ascii ''Command failed''))),
      JSON_parse = (\<lambda>s. Inl (Error (ascii ''Unexpected end of JSON input''))),
      JSON_stringify = (\<lambda>j. []),
      TypeError_message = v8_TypeError_message,
      ToPrimitive_message = ascii ''Cannot convert object to primitive value'',
      Number_toString = (\<lambda>j. ascii ''Infinity''),
      fetch = (\<lambda>url init. Inl (Error (ascii ''fetch failed''))),
      axios_post = (\<lambda>url params. Inl (AxiosError (ascii ''connect ECONNREFUSED'') None))\<rparr>"

definition chat_not_found :: json where
  "chat_not_found =
     JObj [(ascii ''ok'', JBool False),
           (ascii ''description'', JStr (ascii ''Bad Request: chat not found''))]"

text \<open>Answers with an object that has a key \<open>toString\<close> of its own.\<close>

definition sent_42_odd_description :: json where
  "sent_42_odd_description =
     JObj [(ascii ''ok'', JBool True),
           (ascii ''description'', JObj [(ascii ''toString'', JNum 1)]),
           (ascii ''result'', JObj [(ascii ''message_id'', JNum 42)])]"

definition sent_odd_id :: json where
  "sent_odd_id =
     JObj [(ascii ''ok'', JBool True),
           (ascii ''result'', JObj [(ascii ''message_id'', JObj [(ascii ''toString'', JNum 1)])])]"

definition sent_42 :: json where
  "sent_42 =
     JObj [(ascii ''ok'', JBool True),
           (ascii ''result'', JObj [(ascii ''message_id'', JNum 42)])]"

section \<open>Auxiliary facts\<close>

lemma ascii_keys_distinct:
  "ascii ''message'' \<noteq> ascii ''parse_mode''" "ascii ''parse_mode'' \<noteq> ascii ''message''"
  by (simp_all add: ascii_def)

lemma parse_modes_nonempty: "p \<in> set parse_modes \<Longrightarrow> p \<noteq> []"
  by (auto simp: parse_modes_def ascii_def)

subsection \<open>Lengths of strings of surrogate pairs\<close>

lemma codepoint_length_pairs:
  "is_high_surrogate h \<Longrightarrow> is_low_surrogate l \<Longrightarrow>
   codepoint_length (concat (replicate n [h, l])) = n"
  by (induction n) simp_all

lemma length_pairs: "length (concat (replicate n [h, l])) = 2 * n"
  by (induction n) simp_all

lemma codepoint_length_astral: "codepoint_length astral_message = 4096"
  unfolding astral_message_def
  by (rule codepoint_length_pairs) (simp_all add: is_high_surrogate_def is_low_surrogate_def)

lemma length_astral: "length astral_message = 8192"
  by (simp add: astral_message_def length_pairs)

subsection \<open>The schema\<close>

lemma parse_fails_iff_issues:
  "(\<exists>issues. SendMessageSchema_parse em args = Inl issues) \<longleftrightarrow>
   snd (message_schema em (field args ''message'')) @
   snd (parse_mode_schema em (field args ''parse_mode'')) \<noteq> []"
  by (auto simp: SendMessageSchema_parse_def message_schema_def parse_mode_schema_def
      split: prod.splits option.splits list.splits json.splits if_splits)

lemma message_issues_iff:
  "snd (message_schema em v) \<noteq> [] \<longleftrightarrow>
   ((\<forall>m. v \<noteq> Some (JStr m)) \<or> v = Some (JStr []) \<or> (\<exists>m. v = Some (JStr m) \<and> 4096 < length m))"
  by (auto simp: message_schema_def split: option.splits json.splits)

lemma parse_mode_issues_iff:
  "snd (parse_mode_schema em v) \<noteq> [] \<longleftrightarrow>
   (v \<noteq> None \<and> (\<forall>p. p \<in> set parse_modes \<longrightarrow> v \<noteq> Some (JStr p)))"
  by (auto simp: parse_mode_schema_def split: option.splits json.splits)

lemma parse_fails_iff:
  "(\<exists>issues. SendMessageSchema_parse em args = Inl issues) \<longleftrightarrow>
     ((\<forall>m. field args ''message'' \<noteq> Some (JStr m)) \<or>
      field args ''message'' = Some (JStr []) \<or>
      (\<exists>m. field args ''message'' = Some (JStr m) \<and> 4096 < length m) \<or>
      (field args ''parse_mode'' \<noteq> None \<and>
       (\<forall>p. p \<in> set parse_modes \<longrightarrow> field args ''parse_mode'' \<noteq> Some (JStr p))))"
  unfolding parse_fails_iff_issues append_is_Nil_conv de_Morgan_conj
    message_issues_iff parse_mode_issues_iff
  by blast

lemma empty_reason:
  "field args ''message'' = Some (JStr []) \<Longrightarrow>
   \<exists>issues. SendMessageSchema_parse em args = Inl issues \<and>
     ascii ''Message cannot be empty'' \<in> set (map issue_message issues)"
  by (auto simp: SendMessageSchema_parse_def message_schema_def
      split: prod.splits option.splits list.splits)

lemma long_reason:
  "field args ''message'' = Some (JStr m) \<Longrightarrow> 4096 < length m \<Longrightarrow>
   \<exists>issues. SendMessageSchema_parse em args = Inl issues \<and>
     ascii ''Message exceeds Telegram's 4096 character limit'' \<in> set (map issue_message issues)"
  by (auto simp: SendMessageSchema_parse_def message_schema_def
      split: prod.splits option.splits list.splits)

lemma enum_reason:
  "field args ''parse_mode'' = Some (JStr p) \<Longrightarrow> p \<notin> set parse_modes \<Longrightarrow>
   \<exists>issues. SendMessageSchema_parse em args = Inl issues \<and>
     Issue invalid_enum_value [ascii ''parse_mode''] (em (InvalidEnumValue parse_modes p))
       \<in> set issues"
  by (auto simp: SendMessageSchema_parse_def parse_mode_schema_def
      split: prod.splits option.splits list.splits)

lemma parse_accepts:
  assumes "field args ''message'' = Some (JStr m)"
    and "1 \<le> length m" and "length m \<le> 4096"
    and "field args ''parse_mode'' = map_option JStr pm"
    and "pm = None \<or> pm \<in> Some ` set parse_modes"
  shows "SendMessageSchema_parse em args = Inr \<lparr>message = m, parse_mode = pm\<rparr>"
  using assms
  by (auto simp: SendMessageSchema_parse_def message_schema_def parse_mode_schema_def)

lemma parse_hi:
  "SendMessageSchema_parse em [(ascii ''message'', JStr (ascii ''hi''))] =
   Inr \<lparr>message = ascii ''hi'', parse_mode = None\<rparr>"
  by (rule parse_accepts) (simp_all add: field_def ascii_def)

lemma parse_no_arguments:
  "SendMessageSchema_parse em [] =
   Inl [Issue invalid_type [ascii ''message''] (em (InvalidType (ascii ''string'') None))]"
  by (simp add: SendMessageSchema_parse_def message_schema_def parse_mode_schema_def field_def)

subsection \<open>The gateways on a failed validation\<close>

lemma gateway_invalid:
  "SendMessageSchema_parse (errorMap rt) args = Inl issues \<Longrightarrow>
   processToolCall rt cfg (ascii ''send_message'') args =
     ([], Inr \<lparr>tc_type = ascii ''text'',
               tc_text = ascii ''Error: Invalid input: '' @
                         join (ascii '', '') (map issue_message issues)\<rparr>)"
  by (simp add: processToolCall_def validate_and_send_def errorMessage_of_def ascii_def)

lemma gateway_dist_invalid:
  "SendMessageSchema_parse (errorMap rt) args = Inl issues \<Longrightarrow>
   processToolCall_dist rt cfg (ascii ''send_message'') args =
     ([], Inr \<lparr>tc_type = ascii ''text'',
               tc_text = ascii ''Invalid input: '' @
                         join (ascii '', '') (map issue_message issues)\<rparr>)"
  by (simp add: processToolCall_dist_def validate_and_send_def catch_text_dist_def)

lemma gateway_axios_invalid:
  "SendMessageSchema_parse (errorMap rt) args = Inl issues \<Longrightarrow>
   processToolCall_axios rt cfg (ascii ''send_message'') args =
     ([], Inr \<lparr>tc_type = ascii ''text'',
               tc_text = ascii ''Invalid input: '' @
                         join (ascii '', '') (map issue_message issues)\<rparr>)"
  by (simp add: processToolCall_axios_def validate_and_send_def catch_text_dist_def)

subsection \<open>The gateways always return\<close>

lemma processToolCall_returns:
  "\<exists>fx t. processToolCall rt cfg toolName toolInput = (fx, Inr t) \<and> tc_type t = ascii ''text''"
  by (auto simp: processToolCall_def split: prod.splits sum.splits)

lemma processToolCall_dist_returns:
  "\<exists>fx t. processToolCall_dist rt cfg toolName toolInput = (fx, Inr t) \<and>
     tc_type t = ascii ''text''"
  by (auto simp: processToolCall_dist_def split: prod.splits sum.splits)

lemma processToolCall_axios_returns:
  "\<exists>fx t. processToolCall_axios rt cfg toolName toolInput = (fx, Inr t) \<and>
     tc_type t = ascii ''text''"
  by (auto simp: processToolCall_axios_def split: prod.splits sum.splits)

lemma handler_returns:
  "\<exists>fx t. CallTool_handler rt cfg request = (fx, Inr \<lparr>content = [t], isError = None\<rparr>) \<and>
     tc_type t = ascii ''text''"
proof -
  obtain fx t where
    "processToolCall rt cfg (name request)
       (case arguments request of None \<Rightarrow> [] | Some args \<Rightarrow> args) = (fx, Inr t)"
    and "tc_type t = ascii ''text''"
    using processToolCall_returns by blast
  then show ?thesis by (simp add: CallTool_handler_def)
qed

lemma send_never_NonError: "snd (sendTelegramMessage rt cfg msg pm) \<noteq> Inl (NonError j)"
  by (auto simp: sendTelegramMessage_def catch_send_def Let_def split: sum.splits thrown.splits)

subsection \<open>A failed send, as the gateways render it\<close>

lemma gateway_send_error:
  assumes "SendMessageSchema_parse (errorMap rt) args = Inr v"
    and "snd (sendTelegramMessage rt cfg (message v) (parse_mode v)) = Inl (Error m)"
  shows "snd (processToolCall rt cfg (ascii ''send_message'') args) =
     Inr \<lparr>tc_type = ascii ''text'', tc_text = ascii ''Error: '' @ m\<rparr>"
  using assms
  by (auto simp: processToolCall_def validate_and_send_def errorMessage_of_def
      split: prod.splits sum.splits)

lemma gateway_dist_send_error:
  assumes "SendMessageSchema_parse (errorMap rt) args = Inr v"
    and "snd (sendTelegramMessage_dist rt cfg (message v) (parse_mode v)) = Inl (Error m)"
  shows "snd (processToolCall_dist rt cfg (ascii ''send_message'') args) =
     Inr \<lparr>tc_type = ascii ''text'', tc_text = ascii ''Error: '' @ m\<rparr>"
  using assms
  by (auto simp: processToolCall_dist_def validate_and_send_def catch_text_dist_def
      split: prod.splits sum.splits)

lemma gateway_axios_send_error:
  assumes "SendMessageSchema_parse (errorMap rt) args = Inr v"
    and "snd (sendTelegramMessage_axios rt cfg (message v) (parse_mode v)) = Inl (Error m)"
  shows "snd (processToolCall_axios rt cfg (ascii ''send_message'') args) =
     Inr \<lparr>tc_type = ascii ''text'', tc_text = ascii ''Error: '' @ m\<rparr>"
  using assms
  by (auto simp: processToolCall_axios_def validate_and_send_def catch_text_dist_def
      split: prod.splits sum.splits)

lemma send_exec_fails:
  "execSync rt (curl_command cfg msg pm) = Inl (Error m) \<Longrightarrow>
   snd (sendTelegramMessage rt cfg msg pm) = Inl (Error m)"
  by (simp add: sendTelegramMessage_def catch_send_def)

subsection \<open>String conversion\<close>

lemma falsy_converts: "\<not> truthy v \<Longrightarrow> \<exists>s. template rt v = Inr s"
proof (cases v)
  case None
  then show ?thesis by (simp add: template_def)
next
  case (Some j)
  assume "\<not> truthy v"
  with Some show ?thesis by (cases j) (simp_all add: template_def)
qed

lemma true_converts: "template rt (Some (JBool True)) = Inr (ascii ''true'')"
  by (simp add: template_def)

lemma digits_nonempty: "digits n \<noteq> []"
  by (subst digits.simps) simp

lemma decimal_value_snoc:
  "decimal_value (ds @ [c]) = 10 * decimal_value ds + (unat c - 48)"
  by (simp add: decimal_value_def)

lemma digit_unat: "d < 10 \<Longrightarrow> unat (of_nat (48 + d) :: 16 word) = 48 + d"
  by (simp only: unat_of_nat) simp

lemma digit_range:
  assumes "d < 10"
  shows "(0x30 :: 16 word) \<le> of_nat (48 + d) \<and> (of_nat (48 + d) :: 16 word) \<le> 0x39"
proof -
  have "unat (of_nat (48 + d) :: 16 word) = 48 + d"
    using assms by (rule digit_unat)
  with assms show ?thesis by (simp add: word_le_nat_alt)
qed

lemma digits_all: "list_all (\<lambda>c. 0x30 \<le> c \<and> c \<le> 0x39) (digits n)"
proof (induction n rule: digits.induct)
  case (1 n)
  show ?case
  proof (cases "n < 10")
    case True
    then show ?thesis using digit_range [of n] by (subst digits.simps) simp
  next
    case False
    with "1" have "list_all (\<lambda>c. 0x30 \<le> c \<and> c \<le> 0x39) (digits (n div 10))"
      by simp
    moreover have "n mod 10 < 10" by simp
    ultimately show ?thesis
      using False digit_range [of "n mod 10"] by (subst digits.simps) simp
  qed
qed

lemma digits_value: "decimal_value (digits n) = n"
proof (induction n rule: digits.induct)
  case (1 n)
  show ?case
  proof (cases "n < 10")
    case True
    then show ?thesis
      using digit_unat [of n] by (subst digits.simps) (simp add: decimal_value_def)
  next
    case False
    with "1" have "decimal_value (digits (n div 10)) = n div 10"
      by simp
    moreover have "unat (of_nat (48 + n mod 10) :: 16 word) = 48 + n mod 10"
      by (rule digit_unat) simp
    ultimately show ?thesis
      using False by (subst digits.simps) (simp add: decimal_value_snoc)
  qed
qed

lemma digits_hd: "0 < n \<Longrightarrow> hd (digits n) \<noteq> 0x30"
proof (induction n rule: digits.induct)
  case (1 n)
  show ?case
  proof (cases "n < 10")
    case True
    have "unat (hd (digits n)) = 48 + n"
      using True digit_unat [of n] by (subst digits.simps) simp
    with "1.prems" show ?thesis by auto
  next
    case False
    then have "0 < n div 10" by simp
    with "1.IH" False have "hd (digits (n div 10)) \<noteq> 0x30"
      by simp
    then show ?thesis
      using False digits_nonempty [of "n div 10"] by (subst digits.simps) simp
  qed
qed

lemma digits_zero: "digits 0 = [0x30]"
  by (subst digits.simps) simp

lemma digits_decimal: "is_decimal_numeral (digits n) n"
proof (cases "n = 0")
  case True
  then show ?thesis
    using digits_all [of 0] digits_value [of 0]
    by (simp add: is_decimal_numeral_def digits_zero)
next
  case False
  then show ?thesis
    using digits_all [of n] digits_value [of n] digits_hd [of n] digits_nonempty [of n]
    by (simp add: is_decimal_numeral_def)
qed

lemma ToString_integer:
  assumes "ToString rt el (JNum n) = Inr s" and "\<bar>n\<bar> < 2 ^ 53"
  shows "\<exists>ds. s = (if n < 0 then ascii ''-'' else []) @ ds \<and> is_decimal_numeral ds (nat \<bar>n\<bar>)"
proof (cases "n < 0")
  case True
  with assms have "s = ascii ''-'' @ digits (nat (- n))" by simp
  moreover from True have "nat \<bar>n\<bar> = nat (- n)" by simp
  ultimately show ?thesis using True digits_decimal [of "nat (- n)"] by auto
next
  case False
  with assms have "s = digits (nat n)" by simp
  moreover from False have "nat \<bar>n\<bar> = nat n" by simp
  ultimately show ?thesis using False digits_decimal [of "nat n"] by auto
qed

subsection \<open>The senders on an answer of the remote\<close>

lemma send_ok:
  assumes "execSync rt (curl_command cfg msg pm) = Inr out"
    and "JSON_parse rt out = Inr (JObj resp)"
    and "field resp ''ok'' = Some (JBool True)"
    and "field resp ''result'' = Some (JObj res)"
    and "field res ''message_id'' = Some m"
    and "template rt (field resp ''description'') = Inr logged"
    and "ToString rt False m = Inr s"
  shows "snd (sendTelegramMessage rt cfg msg pm) =
     Inr (ascii ''Message sent successfully to Telegram. Message ID: '' @ s)"
  using assms
  by (simp add: sendTelegramMessage_def read_response_def read_property_def
      true_converts) (simp add: template_def)

lemma send_unconvertible_description:
  assumes "execSync rt (curl_command cfg msg pm) = Inr out"
    and "JSON_parse rt out = Inr (JObj resp)"
    and "template rt (field resp ''ok'') = Inr logged"
    and "template rt (field resp ''description'') = Inl (Error e)"
  shows "snd (sendTelegramMessage rt cfg msg pm) = Inl (Error e)"
  using assms
  by (simp add: sendTelegramMessage_def read_response_def read_property_def catch_send_def)

lemma send_unconvertible_id:
  assumes "execSync rt (curl_command cfg msg pm) = Inr out"
    and "JSON_parse rt out = Inr (JObj resp)"
    and "field resp ''ok'' = Some (JBool True)"
    and "field resp ''result'' = Some (JObj res)"
    and "field res ''message_id'' = Some m"
    and "template rt (field resp ''description'') = Inr logged"
    and "ToString rt False m = Inl (Error e)"
  shows "snd (sendTelegramMessage rt cfg msg pm) = Inl (Error e)"
  using assms
  by (simp add: sendTelegramMessage_def read_response_def read_property_def
      true_converts template_def catch_send_def)

lemma send_dist_ok:
  assumes "fetch rt (api_url cfg) (fetch_request rt cfg msg pm) = Inr response"
    and "response_ok response"
    and "json_result response = Inr (JObj resp)"
    and "field resp ''ok'' = Some (JBool True)"
    and "field resp ''result'' = Some (JObj res)"
    and "field res ''message_id'' = Some m"
    and "ToString rt False m = Inr s"
  shows "snd (sendTelegramMessage_dist rt cfg msg pm) =
     Inr (ascii ''Message sent successfully to Telegram. Message ID: '' @ s)"
  using assms
  by (simp add: sendTelegramMessage_dist_def read_fetch_response_def read_property_def
      template_def)

lemma send_axios_ok:
  assumes "axios_post rt (api_url cfg) (axios_params cfg msg pm) = Inr response"
    and "data response = JObj resp"
    and "field resp ''ok'' = Some (JBool True)"
    and "field resp ''result'' = Some (JObj res)"
    and "field res ''message_id'' = Some m"
    and "ToString rt False m = Inr s"
  shows "snd (sendTelegramMessage_axios rt cfg msg pm) =
     Inr (ascii ''Message sent successfully to Telegram. Message ID: '' @ s)"
  using assms
  by (simp add: sendTelegramMessage_axios_def read_axios_response_def read_property_def
      template_def)

lemma send_not_ok:
  assumes "execSync rt (curl_command cfg msg pm) = Inr out"
    and "JSON_parse rt out = Inr (JObj resp)"
    and "\<not> truthy (field resp ''ok'')"
    and "template rt (field resp ''description'') = Inr ds"
  shows "snd (sendTelegramMessage rt cfg msg pm) =
     Inl (Error (ascii ''Telegram API error: '' @
       (if truthy (field resp ''description'') then ds else ascii ''Unknown error'')))"
proof -
  from assms(3) obtain logged where "template rt (field resp ''ok'') = Inr logged"
    using falsy_converts by blast
  with assms show ?thesis
    by (simp add: sendTelegramMessage_def read_response_def read_property_def catch_send_def)
qed

lemma send_dist_http_error:
  assumes "fetch rt (api_url cfg) (fetch_request rt cfg msg pm) = Inr response"
    and "\<not> response_ok response"
    and "json_result response = Inr (JObj resp)"
    and "template rt (field resp ''description'') = Inr ds"
  shows "snd (sendTelegramMessage_dist rt cfg msg pm) =
     Inl (Error (ascii ''Failed to send Telegram message: Telegram API error: '' @
       (if truthy (field resp ''description'') then ds
        else ascii ''HTTP '' @ digits (status response) @ ascii '' error'')))"
  using assms
  by (simp add: sendTelegramMessage_dist_def read_fetch_response_def read_property_def
      catch_send_dist_def ascii_def)

lemma send_dist_not_ok:
  assumes "fetch rt (api_url cfg) (fetch_request rt cfg msg pm) = Inr response"
    and "response_ok response"
    and "json_result response = Inr (JObj resp)"
    and "\<not> truthy (field resp ''ok'')"
    and "template rt (field resp ''description'') = Inr ds"
  shows "snd (sendTelegramMessage_dist rt cfg msg pm) =
     Inl (Error (ascii ''Failed to send Telegram message: Telegram API returned error: '' @
       (if truthy (field resp ''description'') then ds else ascii ''Unknown error'')))"
  using assms
  by (simp add: sendTelegramMessage_dist_def read_fetch_response_def read_property_def
      catch_send_dist_def ascii_def)

lemma send_axios_http_error:
  assumes "axios_post rt (api_url cfg) (axios_params cfg msg pm) =
             Inl (AxiosError am (Some response))"
    and "data response = JObj resp"
    and "template rt (field resp ''description'') = Inr ds"
  shows "snd (sendTelegramMessage_axios rt cfg msg pm) =
     Inl (Error (ascii ''Failed to send Telegram message: '' @
       (if truthy (field resp ''description'') then ds
        else if am \<noteq> [] then am else ascii ''Unknown error'')))"
  using assms
  by (simp add: sendTelegramMessage_axios_def optional_property_def catch_send_axios_def)

lemma send_axios_not_ok:
  assumes "axios_post rt (api_url cfg) (axios_params cfg msg pm) = Inr response"
    and "data response = JObj resp"
    and "\<not> truthy (field resp ''ok'')"
    and "template rt (field resp ''description'') = Inr ds"
  shows "snd (sendTelegramMessage_axios rt cfg msg pm) =
     Inl (Error (ascii ''Failed to send Telegram message: Telegram API returned error: '' @
       (if truthy (field resp ''description'') then ds else ascii ''Unknown error'')))"
  using assms
  by (simp add: sendTelegramMessage_axios_def read_axios_response_def read_property_def
      catch_send_axios_def ascii_def)

subsection \<open>What the senders hand to their transport\<close>

lemma exec_effects:
  "fst (sendTelegramMessage rt cfg msg pm) = [ExecSync (curl_command cfg msg pm)]"
  by (simp add: sendTelegramMessage_def Let_def)

lemma fetch_effects:
  "fst (sendTelegramMessage_dist rt cfg msg pm) =
     [Fetch (api_url cfg) (fetch_request rt cfg msg pm)]"
  by (simp add: sendTelegramMessage_dist_def Let_def)

lemma axios_effects:
  "fst (sendTelegramMessage_axios rt cfg msg pm) =
     [AxiosPost (api_url cfg) (axios_params cfg msg pm)]"
  by (simp add: sendTelegramMessage_axios_def Let_def)

lemma axios_params_valid:
  "pm = None \<or> pm \<in> Some ` set parse_modes \<Longrightarrow>
   axios_params cfg msg pm =
     [(ascii ''chat_id'', CHAT_ID cfg), (ascii ''text'', msg)] @
     (case pm of None \<Rightarrow> [] | Some p \<Rightarrow> [(ascii ''parse_mode'', p)])"
  by (auto simp: axios_params_def dest: parse_modes_nonempty)

lemma json_params_valid:
  "pm = None \<or> pm \<in> Some ` set parse_modes \<Longrightarrow>
   json_params cfg msg pm =
     [(ascii ''chat_id'', JStr (CHAT_ID cfg)), (ascii ''text'', JStr msg)] @
     (case pm of None \<Rightarrow> [] | Some p \<Rightarrow> [(ascii ''parse_mode'', JStr p)])"
  by (auto simp: json_params_def dest: parse_modes_nonempty)

lemma curl_command_shape:
  "curl_command cfg msg pm =
     ascii ''curl -s -X POST '' @ [dquote] @ api_url cfg @ [dquote] @
     ascii '' -d '' @ [dquote] @ ascii ''chat_id='' @ CHAT_ID cfg @ [dquote] @
     ascii '' -d '' @ [dquote] @ ascii ''text='' @ replace_dquotes msg @ [dquote] @
     (case pm of
        None \<Rightarrow> []
      | Some p \<Rightarrow>
          if p \<noteq> [] then ascii '' -d '' @ [dquote] @ ascii ''parse_mode='' @ p @ [dquote]
          else [])"
  by (simp add: curl_command_def Let_def split: option.splits)

subsection \<open>The replacement of double quotes\<close>

lemma replace_dquotes_Nil: "replace_dquotes [] = []"
  by (simp add: replace_dquotes_def)

lemma replace_dquotes_Cons:
  "replace_dquotes (c # cs) =
     (if c = dquote then [backslash, dquote] else [c]) @ replace_dquotes cs"
  by (simp add: replace_dquotes_def)

lemma replace_dquotes_length:
  "length (replace_dquotes s) = length s + length (filter (\<lambda>c. c = dquote) s)"
  by (induction s) (simp_all add: replace_dquotes_Cons replace_dquotes_Nil)

lemma replace_dquotes_id: "replace_dquotes s = s \<longleftrightarrow> dquote \<notin> set s"
proof
  assume "replace_dquotes s = s"
  then have "length (filter (\<lambda>c. c = dquote) s) = 0"
    using replace_dquotes_length[of s] by simp
  then show "dquote \<notin> set s" by (auto simp: filter_empty_conv)
next
  assume "dquote \<notin> set s"
  then show "replace_dquotes s = s"
    by (induction s) (auto simp: replace_dquotes_Cons replace_dquotes_Nil)
qed

subsection \<open>Startup\<close>

lemma env_or_empty_empty: "env_or_empty v = [] \<longleftrightarrow> (v = None \<or> v = Some [])"
  by (auto simp: env_or_empty_def split: option.splits)

lemma startup_exit:
  assumes "env ''TELEGRAM_BOT_TOKEN'' = None \<or> env ''TELEGRAM_BOT_TOKEN'' = Some [] \<or>
           env ''TELEGRAM_CHAT_ID'' = None \<or> env ''TELEGRAM_CHAT_ID'' = Some []"
  shows "\<exists>out. startup env =
     (out @ [ascii ''Error: TELEGRAM_BOT_TOKEN and TELEGRAM_CHAT_ID environment variables are required''],
      Inl 1)"
  using assms by (auto simp: startup_def Let_def env_or_empty_empty)

lemma startup_ok:
  assumes "\<not> (env ''TELEGRAM_BOT_TOKEN'' = None \<or> env ''TELEGRAM_BOT_TOKEN'' = Some [] \<or>
           env ''TELEGRAM_CHAT_ID'' = None \<or> env ''TELEGRAM_CHAT_ID'' = Some [])"
  shows "\<exists>out t c. env ''TELEGRAM_BOT_TOKEN'' = Some t \<and> t \<noteq> [] \<and>
     env ''TELEGRAM_CHAT_ID'' = Some c \<and> c \<noteq> [] \<and>
     startup env = (out, Inr \<lparr>BOT_TOKEN = t, CHAT_ID = c\<rparr>)"
  using assms by (auto simp: startup_def Let_def env_or_empty_def)

lemma run_exit:
  "startup env = (out, Inl c) \<Longrightarrow>
   run_server rt env requests = \<lparr>stderr = out, exit_code = Some c, replies = []\<rparr>"
  by (simp add: run_server_def)

lemma run_ok:
  "startup env = (out, Inr cfg) \<Longrightarrow>
   run_server rt env requests =
     \<lparr>stderr = out, exit_code = None, replies = map (CallTool_handler rt cfg) requests\<rparr>"
  by (simp add: run_server_def)

subsection \<open>A call without arguments\<close>

lemma handler_no_arguments:
  "CallTool_handler rt cfg \<lparr>name = ascii ''send_message'', arguments = None\<rparr> =
     ([], Inr \<lparr>content = [\<lparr>tc_type = ascii ''text'',
                            tc_text = ascii ''Error: Invalid input: '' @
                              errorMap rt (InvalidType (ascii ''string'') None)\<rparr>],
                isError = None\<rparr>)"
  by (simp add: CallTool_handler_def gateway_invalid [OF parse_no_arguments])

section \<open>The claims\<close>

text \<open>
  C1, as the program has it: a message is measured in UTF-16 code units. For every
  arguments mapping whose \<open>message\<close> is a string of 1 to 4096 code units and whose
  \<open>parse_mode\<close> is absent or one of HTML, Markdown, MarkdownV2, the schema accepts and
  returns that message and parse mode unchanged.
\<close>

theorem validate_accepts_utf16_length:
  assumes "field args ''message'' = Some (JStr m)"
    and "1 \<le> length m" and "length m \<le> 4096"
    and "field args ''parse_mode'' = map_option JStr pm"
    and "pm = None \<or> pm \<in> Some ` set parse_modes"
  shows "SendMessageSchema_parse em args = Inr \<lparr>message = m, parse_mode = pm\<rparr>"
  using assms by (rule parse_accepts)

theorem validate_accepts_utf16_length_witness:
  "SendMessageSchema_parse zod_errorMap
     [(ascii ''message'', JStr (ascii ''hi'')), (ascii ''parse_mode'', JStr (ascii ''HTML''))] =
   Inr \<lparr>message = ascii ''hi'', parse_mode = Some (ascii ''HTML'')\<rparr>"
  by (rule validate_accepts_utf16_length) (simp_all add: field_def ascii_def parse_modes_def)

text \<open>
  Measured in code points the statement fails: 4096 characters outside the Basic
  Multilingual Plane are a valid request of the specification, and the schema rejects them
  as too long.
\<close>

theorem validate_rejects_4096_astral_characters:
  "spec_valid_arguments [(ascii ''message'', JStr astral_message)] \<and>
   SendMessageSchema_parse zod_errorMap [(ascii ''message'', JStr astral_message)] =
     Inl [Issue too_big [ascii ''message'']
            (ascii ''Message exceeds Telegram's 4096 character limit'')]"
  by (simp add: spec_valid_arguments_def SendMessageSchema_parse_def field_def
      ascii_keys_distinct message_schema_def parse_mode_schema_def
      codepoint_length_astral length_astral)

text \<open>
  C2, as the program has it: validation fails if and only if the message is not a string
  (missing, or of another type), is empty, or is longer than 4096 UTF-16 code units, or
  the parse mode is present and not one of the three literal strings. An empty message
  gives the reason "Message cannot be empty", a message that is too long the reason
  "Message exceeds Telegram's 4096 character limit", a string that is no parse mode an
  issue of code \<open>invalid_enum_value\<close>. The gateway joins the reasons of all issues with
  ", ": after "Error: Invalid input: " in src/index.ts, after "Invalid input: " in the two
  other variants.
\<close>

theorem validate_fails_iff_with_reasons:
  "((\<exists>issues. SendMessageSchema_parse em args = Inl issues) \<longleftrightarrow>
      ((\<forall>m. field args ''message'' \<noteq> Some (JStr m)) \<or>
       field args ''message'' = Some (JStr []) \<or>
       (\<exists>m. field args ''message'' = Some (JStr m) \<and> 4096 < length m) \<or>
       (field args ''parse_mode'' \<noteq> None \<and>
        (\<forall>p. p \<in> set parse_modes \<longrightarrow> field args ''parse_mode'' \<noteq> Some (JStr p))))) \<and>
   (field args ''message'' = Some (JStr []) \<longrightarrow>
      (\<exists>issues. SendMessageSchema_parse em args = Inl issues \<and>
         ascii ''Message cannot be empty'' \<in> set (map issue_message issues))) \<and>
   (\<forall>m. field args ''message'' = Some (JStr m) \<and> 4096 < length m \<longrightarrow>
      (\<exists>issues. SendMessageSchema_parse em args = Inl issues \<and>
         ascii ''Message exceeds Telegram's 4096 character limit''
           \<in> set (map issue_message issues))) \<and>
   (\<forall>p. field args ''parse_mode'' = Some (JStr p) \<and> p \<notin> set parse_modes \<longrightarrow>
      (\<exists>issues. SendMessageSchema_parse em args = Inl issues \<and>
         Issue invalid_enum_value [ascii ''parse_mode''] (em (InvalidEnumValue parse_modes p))
           \<in> set issues)) \<and>
   (\<forall>issues. SendMessageSchema_parse (errorMap rt) args = Inl issues \<longrightarrow>
      processToolCall rt cfg (ascii ''send_message'') args =
        ([], Inr \<lparr>tc_type = ascii ''text'',
                  tc_text = ascii ''Error: Invalid input: '' @
                            join (ascii '', '') (map issue_message issues)\<rparr>) \<and>
      processToolCall_dist rt cfg (ascii ''send_message'') args =
        ([], Inr \<lparr>tc_type = ascii ''text'',
                  tc_text = ascii ''Invalid input: '' @
                            join (ascii '', '') (map issue_message issues)\<rparr>) \<and>
      processToolCall_axios rt cfg (ascii ''send_message'') args =
        ([], Inr \<lparr>tc_type = ascii ''text'',
                  tc_text = ascii ''Invalid input: '' @
                            join (ascii '', '') (map issue_message issues)\<rparr>))"
proof -
  have fails: "(\<exists>issues. SendMessageSchema_parse em args = Inl issues) \<longleftrightarrow>
      ((\<forall>m. field args ''message'' \<noteq> Some (JStr m)) \<or>
       field args ''message'' = Some (JStr []) \<or>
       (\<exists>m. field args ''message'' = Some (JStr m) \<and> 4096 < length m) \<or>
       (field args ''parse_mode'' \<noteq> None \<and>
        (\<forall>p. p \<in> set parse_modes \<longrightarrow> field args ''parse_mode'' \<noteq> Some (JStr p))))"
    by (rule parse_fails_iff)
  have empty: "field args ''message'' = Some (JStr []) \<longrightarrow>
      (\<exists>issues. SendMessageSchema_parse em args = Inl issues \<and>
         ascii ''Message cannot be empty'' \<in> set (map issue_message issues))"
    using empty_reason by blast
  have long: "\<forall>m. field args ''message'' = Some (JStr m) \<and> 4096 < length m \<longrightarrow>
      (\<exists>issues. SendMessageSchema_parse em args = Inl issues \<and>
         ascii ''Message exceeds Telegram's 4096 character limit''
           \<in> set (map issue_message issues))"
    using long_reason by blast
  have enum: "\<forall>p. field args ''parse_mode'' = Some (JStr p) \<and> p \<notin> set parse_modes \<longrightarrow>
      (\<exists>issues. SendMessageSchema_parse em args = Inl issues \<and>
         Issue invalid_enum_value [ascii ''parse_mode''] (em (InvalidEnumValue parse_modes p))
           \<in> set issues)"
    using enum_reason by blast
  have rendered: "\<forall>issues. SendMessageSchema_parse (errorMap rt) args = Inl issues \<longrightarrow>
      processToolCall rt cfg (ascii ''send_message'') args =
        ([], Inr \<lparr>tc_type = ascii ''text'',
                  tc_text = ascii ''Error: Invalid input: '' @
                            join (ascii '', '') (map issue_message issues)\<rparr>) \<and>
      processToolCall_dist rt cfg (ascii ''send_message'') args =
        ([], Inr \<lparr>tc_type = ascii ''text'',
                  tc_text = ascii ''Invalid input: '' @
                            join (ascii '', '') (map issue_message issues)\<rparr>) \<and>
      processToolCall_axios rt cfg (ascii ''send_message'') args =
        ([], Inr \<lparr>tc_type = ascii ''text'',
                  tc_text = ascii ''Invalid input: '' @
                            join (ascii '', '') (map issue_message issues)\<rparr>)"
    by (simp add: gateway_invalid gateway_dist_invalid gateway_axios_invalid)
  from fails empty long enum rendered show ?thesis
    by (intro conjI)
qed

text \<open>
  An empty message together with the parse mode "Bogus": both reasons, joined. A message
  of 4097 letters: the reason of the limit.
\<close>

theorem validate_fails_iff_with_reasons_witness:
  "(\<exists>issues. SendMessageSchema_parse zod_errorMap
       [(ascii ''message'', JStr []), (ascii ''parse_mode'', JStr (ascii ''Bogus''))] = Inl issues \<and>
       ascii ''Message cannot be empty'' \<in> set (map issue_message issues)) \<and>
   (\<exists>issues. SendMessageSchema_parse zod_errorMap
       [(ascii ''message'', JStr (replicate 4097 0x61))] = Inl issues \<and>
       ascii ''Message exceeds Telegram's 4096 character limit''
         \<in> set (map issue_message issues)) \<and>
   processToolCall unreachable_remote sample_config (ascii ''send_message'')
       [(ascii ''message'', JStr []), (ascii ''parse_mode'', JStr (ascii ''Bogus''))] =
     ([], Inr \<lparr>tc_type = ascii ''text'',
        tc_text = ascii ''Error: Invalid input: Message cannot be empty, Invalid enum value. Expected 'HTML' | 'Markdown' | 'MarkdownV2', received '' @
                  [0x27] @ ascii ''Bogus'' @ [0x27]\<rparr>)"
proof -
  let ?args = "[(ascii ''message'', JStr []), (ascii ''parse_mode'', JStr (ascii ''Bogus''))]"
  let ?issues = "[Issue too_small [ascii ''message''] (ascii ''Message cannot be empty''),
     Issue invalid_enum_value [ascii ''parse_mode'']
       (zod_errorMap (InvalidEnumValue parse_modes (ascii ''Bogus'')))]"
  note T = validate_fails_iff_with_reasons
    [of zod_errorMap ?args unreachable_remote sample_config]
  have empty: "field ?args ''message'' = Some (JStr [])"
    by (simp add: field_def)
  have parsed: "SendMessageSchema_parse (errorMap unreachable_remote) ?args = Inl ?issues"
    by (simp add: SendMessageSchema_parse_def message_schema_def parse_mode_schema_def
        field_def ascii_keys_distinct unreachable_remote_def)
      (simp add: parse_modes_def ascii_def)
  have joined: "ascii ''Error: Invalid input: '' @ join (ascii '', '') (map issue_message ?issues) =
      ascii ''Error: Invalid input: Message cannot be empty, Invalid enum value. Expected 'HTML' | 'Markdown' | 'MarkdownV2', received '' @
        [0x27] @ ascii ''Bogus'' @ [0x27]"
    by (simp add: ascii_def parse_modes_def joinValues_def squote_def)
  from T empty have first:
    "\<exists>issues. SendMessageSchema_parse zod_errorMap ?args = Inl issues \<and>
       ascii ''Message cannot be empty'' \<in> set (map issue_message issues)"
    by blast
  from T parsed have
    "processToolCall unreachable_remote sample_config (ascii ''send_message'') ?args =
       ([], Inr \<lparr>tc_type = ascii ''text'',
          tc_text = ascii ''Error: Invalid input: '' @ join (ascii '', '') (map issue_message ?issues)\<rparr>)"
    by blast
  then have rendered:
    "processToolCall unreachable_remote sample_config (ascii ''send_message'') ?args =
       ([], Inr \<lparr>tc_type = ascii ''text'',
          tc_text = ascii ''Error: Invalid input: Message cannot be empty, Invalid enum value. Expected 'HTML' | 'Markdown' | 'MarkdownV2', received '' @
                  [0x27] @ ascii ''Bogus'' @ [0x27]\<rparr>)"
    unfolding joined .
  let ?long = "[(ascii ''message'', JStr (replicate 4097 0x61))]"
  have "field ?long ''message'' = Some (JStr (replicate 4097 0x61)) \<and>
      4096 < length (replicate 4097 (0x61 :: 16 word))"
    by (simp add: field_def)
  with validate_fails_iff_with_reasons [of zod_errorMap ?long unreachable_remote sample_config]
  have second: "\<exists>issues. SendMessageSchema_parse zod_errorMap ?long = Inl issues \<and>
      ascii ''Message exceeds Telegram's 4096 character limit'' \<in> set (map issue_message issues)"
    by blast
  from first second rendered show ?thesis by (intro conjI)
qed

text \<open>
  The statement of the specification fails: a message that is a number is neither
  missing, empty nor too long, and the schema rejects it.
\<close>

theorem validate_rejects_number_message:
  "SendMessageSchema_parse zod_errorMap [(ascii ''message'', JNum 42)] =
     Inl [Issue invalid_type [ascii ''message''] (ascii ''Expected string, received number'')] \<and>
   \<not> spec_validation_fails [(ascii ''message'', JNum 42)]"
  by (simp add: SendMessageSchema_parse_def message_schema_def parse_mode_schema_def field_def
      ascii_keys_distinct spec_validation_fails_def getParsedType_def)
    (simp add: ascii_def)

text \<open>
  C3: for every tool name, every arguments mapping and every behaviour of the world
  outside (validation failure, an error of the remote API, a fault of the transport,
  success), \<open>processToolCall\<close> and the handler above it return one text content and
  throw nothing; when the command of the shell variant fails with an error, the text is
  "Error: " and the message of that error.
\<close>

theorem gateway_never_throws:
  "(\<exists>fx t. processToolCall rt cfg toolName toolInput = (fx, Inr t) \<and>
      tc_type t = ascii ''text'') \<and>
   (\<exists>fx t. CallTool_handler rt cfg request = (fx, Inr \<lparr>content = [t], isError = None\<rparr>) \<and>
      tc_type t = ascii ''text'') \<and>
   (\<exists>fx t. processToolCall_dist rt cfg toolName toolInput = (fx, Inr t) \<and>
      tc_type t = ascii ''text'') \<and>
   (\<exists>fx t. processToolCall_axios rt cfg toolName toolInput = (fx, Inr t) \<and>
      tc_type t = ascii ''text'') \<and>
   (\<forall>v m. SendMessageSchema_parse (errorMap rt) toolInput = Inr v \<and>
      execSync rt (curl_command cfg (message v) (parse_mode v)) = Inl (Error m) \<longrightarrow>
      snd (processToolCall rt cfg (ascii ''send_message'') toolInput) =
        Inr \<lparr>tc_type = ascii ''text'', tc_text = ascii ''Error: '' @ m\<rparr>)"
proof -
  have failure: "\<forall>v m. SendMessageSchema_parse (errorMap rt) toolInput = Inr v \<and>
      execSync rt (curl_command cfg (message v) (parse_mode v)) = Inl (Error m) \<longrightarrow>
      snd (processToolCall rt cfg (ascii ''send_message'') toolInput) =
        Inr \<lparr>tc_type = ascii ''text'', tc_text = ascii ''Error: '' @ m\<rparr>"
    using gateway_send_error send_exec_fails by blast
  from processToolCall_returns handler_returns processToolCall_dist_returns
    processToolCall_axios_returns failure
  show ?thesis by (intro conjI)
qed

text \<open>The remote cannot be reached: the reply is still a text.\<close>

theorem gateway_never_throws_witness:
  "snd (processToolCall unreachable_remote sample_config (ascii ''send_message'')
          [(ascii ''message'', JStr (ascii ''hi''))]) =
     Inr \<lparr>tc_type = ascii ''text'', tc_text = ascii ''Error: Command failed''\<rparr>"
proof -
  let ?args = "[(ascii ''message'', JStr (ascii ''hi''))]"
  note T = gateway_never_throws [of unreachable_remote sample_config _ ?args]
  have valid: "SendMessageSchema_parse (errorMap unreachable_remote) ?args =
      Inr \<lparr>message = ascii ''hi'', parse_mode = None\<rparr>"
    by (rule parse_hi)
  have fault: "execSync unreachable_remote
      (curl_command sample_config (message \<lparr>message = ascii ''hi'', parse_mode = None\<rparr>)
         (parse_mode \<lparr>message = ascii ''hi'', parse_mode = None\<rparr>)) =
      Inl (Error (ascii ''Command failed''))"
    by (simp add: unreachable_remote_def)
  from T valid fault have
    "snd (processToolCall unreachable_remote sample_config (ascii ''send_message'') ?args) =
       Inr \<lparr>tc_type = ascii ''text'', tc_text = ascii ''Error: '' @ ascii ''Command failed''\<rparr>"
    by blast
  then show ?thesis by (simp add: ascii_def)
qed

text \<open>
  C4, as the program has it: when the remote answers a JSON object whose \<open>ok\<close> is
  true and whose \<open>result.message_id\<close> is \<open>m\<close>, and the string conversion of
  \<open>m\<close> gives \<open>s\<close>, the sender returns exactly
  "Message sent successfully to Telegram. Message ID: " followed by \<open>s\<close>: in the fetch
  and axios variants on a success status, and in the shell variant when the conversion of
  the answer's \<open>description\<close>, which a line of its log makes, does not throw. For an
  integer \<open>m\<close> below \<open>2 ^ 53\<close> in magnitude, \<open>s\<close> is its decimal numeral. Nothing
  else of the answer enters the string.
\<close>

theorem send_success_text:
  assumes "field resp ''ok'' = Some (JBool True)"
    and "field resp ''result'' = Some (JObj res)"
    and "field res ''message_id'' = Some m"
    and "ToString rt False m = Inr s"
  shows
   "(\<forall>out. execSync rt (curl_command cfg msg pm) = Inr out \<and>
       JSON_parse rt out = Inr (JObj resp) \<and>
       (\<exists>logged. template rt (field resp ''description'') = Inr logged) \<longrightarrow>
       snd (sendTelegramMessage rt cfg msg pm) =
         Inr (ascii ''Message sent successfully to Telegram. Message ID: '' @ s)) \<and>
    (\<forall>response. fetch rt (api_url cfg) (fetch_request rt cfg msg pm) = Inr response \<and>
       response_ok response \<and> json_result response = Inr (JObj resp) \<longrightarrow>
       snd (sendTelegramMessage_dist rt cfg msg pm) =
         Inr (ascii ''Message sent successfully to Telegram. Message ID: '' @ s)) \<and>
    (\<forall>response. axios_post rt (api_url cfg) (axios_params cfg msg pm) = Inr response \<and>
       data response = JObj resp \<longrightarrow>
       snd (sendTelegramMessage_axios rt cfg msg pm) =
         Inr (ascii ''Message sent successfully to Telegram. Message ID: '' @ s)) \<and>
    (\<forall>n. m = JNum n \<and> \<bar>n\<bar> < 2 ^ 53 \<longrightarrow>
       (\<exists>ds. s = (if n < 0 then ascii ''-'' else []) @ ds \<and>
          is_decimal_numeral ds (nat \<bar>n\<bar>)))"
proof (intro conjI allI impI)
  fix out
  assume "execSync rt (curl_command cfg msg pm) = Inr out \<and>
    JSON_parse rt out = Inr (JObj resp) \<and>
    (\<exists>logged. template rt (field resp ''description'') = Inr logged)"
  then obtain logged where "execSync rt (curl_command cfg msg pm) = Inr out"
    and "JSON_parse rt out = Inr (JObj resp)"
    and "template rt (field resp ''description'') = Inr logged"
    by blast
  then show "snd (sendTelegramMessage rt cfg msg pm) =
      Inr (ascii ''Message sent successfully to Telegram. Message ID: '' @ s)"
    using assms
    by (intro send_ok [where out = out and resp = resp and res = res and m = m
          and logged = logged]) simp_all
next
  fix response
  assume "fetch rt (api_url cfg) (fetch_request rt cfg msg pm) = Inr response \<and>
    response_ok response \<and> json_result response = Inr (JObj resp)"
  then show "snd (sendTelegramMessage_dist rt cfg msg pm) =
      Inr (ascii ''Message sent successfully to Telegram. Message ID: '' @ s)"
    using assms
    by (intro send_dist_ok [where response = response and resp = resp and res = res
          and m = m]) simp_all
next
  fix response
  assume "axios_post rt (api_url cfg) (axios_params cfg msg pm) = Inr response \<and>
    data response = JObj resp"
  then show "snd (sendTelegramMessage_axios rt cfg msg pm) =
      Inr (ascii ''Message sent successfully to Telegram. Message ID: '' @ s)"
    using assms
    by (intro send_axios_ok [where response = response and resp = resp and res = res
          and m = m]) simp_all
next
  fix n
  assume "m = JNum n \<and> \<bar>n\<bar> < 2 ^ 53"
  with assms(4) show "\<exists>ds. s = (if n < 0 then ascii ''-'' else []) @ ds \<and>
      is_decimal_numeral ds (nat \<bar>n\<bar>)"
    using ToString_integer [of rt False n s] by blast
qed

text \<open>The answer \<open>{"ok": true, "result": {"message_id": 42}}\<close>, in the three variants.\<close>

theorem send_success_text_witness:
  "snd (sendTelegramMessage (fake_remote 200 sent_42) sample_config (ascii ''hello'') None) =
     Inr (ascii ''Message sent successfully to Telegram. Message ID: 42'') \<and>
   snd (sendTelegramMessage_dist (fake_remote 200 sent_42) sample_config (ascii ''hello'') None) =
     Inr (ascii ''Message sent successfully to Telegram. Message ID: 42'') \<and>
   snd (sendTelegramMessage_axios (fake_remote 200 sent_42) sample_config (ascii ''hello'') None) =
     Inr (ascii ''Message sent successfully to Telegram. Message ID: 42'') \<and>
   is_decimal_numeral [0x34, 0x32] 42"
proof -
  let ?rt = "fake_remote 200 sent_42"
  let ?resp = "[(ascii ''ok'', JBool True),
                (ascii ''result'', JObj [(ascii ''message_id'', JNum 42)])]"
  let ?res = "[(ascii ''message_id'', JNum 42)]"
  have ok: "field ?resp ''ok'' = Some (JBool True)"
    by (simp add: field_def)
  have result: "field ?resp ''result'' = Some (JObj ?res)"
    by (simp add: field_def ascii_def)
  have message_id: "field ?res ''message_id'' = Some (JNum 42)"
    by (simp add: field_def)
  have conv: "ToString ?rt False (JNum 42) = Inr [0x34, 0x32]"
    by (simp add: digits.simps)
  have text42: "ascii ''Message sent successfully to Telegram. Message ID: '' @ [0x34, 0x32] =
      ascii ''Message sent successfully to Telegram. Message ID: 42''"
    by (simp add: ascii_def)
  note T = send_success_text
    [OF ok result message_id conv, of sample_config "ascii ''hello''" None]
  have out: "execSync ?rt (curl_command sample_config (ascii ''hello'') None) = Inr []"
    by (simp add: fake_remote_def)
  have parsed: "JSON_parse ?rt [] = Inr (JObj ?resp)"
    by (simp add: fake_remote_def sent_42_def)
  have logged: "\<exists>logged. template ?rt (field ?resp ''description'') = Inr logged"
    by (simp add: field_def template_def ascii_def)
  from T out parsed logged have shell:
    "snd (sendTelegramMessage ?rt sample_config (ascii ''hello'') None) =
       Inr (ascii ''Message sent successfully to Telegram. Message ID: '' @ [0x34, 0x32])"
    by blast
  let ?response = "\<lparr>status = 200, json_result = Inr sent_42\<rparr>"
  have fetched: "fetch ?rt (api_url sample_config)
      (fetch_request ?rt sample_config (ascii ''hello'') None) = Inr ?response"
    by (simp add: fake_remote_def)
  have success: "response_ok ?response" "json_result ?response = Inr (JObj ?resp)"
    by (simp_all add: response_ok_def sent_42_def)
  from T fetched success have fetch_variant:
    "snd (sendTelegramMessage_dist ?rt sample_config (ascii ''hello'') None) =
       Inr (ascii ''Message sent successfully to Telegram. Message ID: '' @ [0x34, 0x32])"
    by blast
  let ?posted = "\<lparr>axios_status = 200, data = sent_42\<rparr>"
  have posted: "axios_post ?rt (api_url sample_config)
      (axios_params sample_config (ascii ''hello'') None) = Inr ?posted"
    by (simp add: fake_remote_def)
  have answer: "data ?posted = JObj ?resp"
    by (simp add: sent_42_def)
  from T posted answer have axios_variant:
    "snd (sendTelegramMessage_axios ?rt sample_config (ascii ''hello'') None) =
       Inr (ascii ''Message sent successfully to Telegram. Message ID: '' @ [0x34, 0x32])"
    by blast
  have "\<bar>42 :: int\<bar> < 2 ^ 53" by simp
  with T have "\<exists>ds. [0x34, 0x32] = (if (42 :: int) < 0 then ascii ''-'' else []) @ ds \<and>
      is_decimal_numeral ds (nat \<bar>42\<bar>)"
    by blast
  then have numeral: "is_decimal_numeral [0x34, 0x32] 42"
    by simp
  from shell fetch_variant axios_variant numeral show ?thesis
    unfolding text42 by (intro conjI)
qed

text \<open>
  The statement of the specification fails on answers with an object that has a key
  \<open>toString\<close> of its own. As the \<open>description\<close> beside the message id 42, it makes the
  shell variant throw while the axios variant returns the text; as the message id itself,
  it has no string.
\<close>

theorem send_fails_on_unconvertible_fields:
  "snd (sendTelegramMessage (fake_remote 200 sent_42_odd_description) sample_config
          (ascii ''hello'') None) =
     Inl (Error (ascii ''Cannot convert object to primitive value'')) \<and>
   snd (sendTelegramMessage_axios (fake_remote 200 sent_42_odd_description) sample_config
          (ascii ''hello'') None) =
     Inr (ascii ''Message sent successfully to Telegram. Message ID: 42'') \<and>
   snd (sendTelegramMessage (fake_remote 200 sent_odd_id) sample_config
          (ascii ''hello'') None) =
     Inl (Error (ascii ''Cannot convert object to primitive value''))"
proof -
  let ?rt = "fake_remote 200 sent_42_odd_description"
  let ?odd = "JObj [(ascii ''toString'', JNum 1)]"
  let ?resp = "[(ascii ''ok'', JBool True), (ascii ''description'', ?odd),
                (ascii ''result'', JObj [(ascii ''message_id'', JNum 42)])]"
  have odd: "ToString rt False ?odd = Inl (Error (ToPrimitive_message rt))" for rt
    by (simp add: field_def)
  have shell: "snd (sendTelegramMessage ?rt sample_config (ascii ''hello'') None) =
      Inl (Error (ascii ''Cannot convert object to primitive value''))"
    by (rule send_unconvertible_description
        [where out = "[]" and resp = ?resp and logged = "ascii ''true''"])
      (simp_all add: fake_remote_def sent_42_odd_description_def field_def template_def
        ascii_def)
  have "snd (sendTelegramMessage_axios ?rt sample_config (ascii ''hello'') None) =
      Inr (ascii ''Message sent successfully to Telegram. Message ID: '' @ [0x34, 0x32])"
    by (rule send_axios_ok
        [where response = "\<lparr>axios_status = 200, data = sent_42_odd_description\<rparr>"
           and resp = ?resp and res = "[(ascii ''message_id'', JNum 42)]" and m = "JNum 42"])
      (simp_all add: fake_remote_def sent_42_odd_description_def field_def ascii_def
        digits.simps)
  then have axios_variant:
    "snd (sendTelegramMessage_axios ?rt sample_config (ascii ''hello'') None) =
       Inr (ascii ''Message sent successfully to Telegram. Message ID: 42'')"
    by (simp add: ascii_def)
  let ?rt2 = "fake_remote 200 sent_odd_id"
  let ?resp2 = "[(ascii ''ok'', JBool True),
                 (ascii ''result'', JObj [(ascii ''message_id'', ?odd)])]"
  have odd_id: "snd (sendTelegramMessage ?rt2 sample_config (ascii ''hello'') None) =
      Inl (Error (ascii ''Cannot convert object to primitive value''))"
    by (rule send_unconvertible_id
        [where out = "[]" and resp = ?resp2 and res = "[(ascii ''message_id'', ?odd)]"
           and m = ?odd and logged = "ascii ''undefined''"])
      (simp_all add: fake_remote_def sent_odd_id_def field_def template_def ascii_def)
  from shell axios_variant odd_id show ?thesis by (intro conjI)
qed

text \<open>
  C5, as the program has it. After a valid input, when the remote answers a JSON object
  whose \<open>description\<close> converts to the string \<open>ds\<close> (used when the description is
  truthy): the shell variant (src/index.ts) does not look at the HTTP status, and an
  answer whose \<open>ok\<close> is falsy is rendered "Error: Telegram API error: " followed by
  \<open>ds\<close>, or by "Unknown error" without a truthy description. The fetch variant renders
  a non-success status "Error: Failed to send Telegram message: Telegram API error: "
  followed by \<open>ds\<close> or by "HTTP", the status and "error", and a falsy \<open>ok\<close> on a
  success status "Error: Failed to send Telegram message: Telegram API returned error: "
  followed by \<open>ds\<close> or "Unknown error". The axios variant renders a non-success status
  "Error: Failed to send Telegram message: " followed by \<open>ds\<close>, else the message of
  the client's error, else "Unknown error", and a falsy \<open>ok\<close> as the fetch variant
  does.
\<close>

theorem remote_error_rendering:
  assumes valid: "SendMessageSchema_parse (errorMap rt) args = Inr v"
    and conv: "template rt (field resp ''description'') = Inr ds"
  shows
   "(\<forall>out. execSync rt (curl_command cfg (message v) (parse_mode v)) = Inr out \<and>
       JSON_parse rt out = Inr (JObj resp) \<and> \<not> truthy (field resp ''ok'') \<longrightarrow>
       snd (processToolCall rt cfg (ascii ''send_message'') args) =
         Inr \<lparr>tc_type = ascii ''text'',
              tc_text = ascii ''Error: '' @ ascii ''Telegram API error: '' @
                (if truthy (field resp ''description'')
                 then ds
                 else ascii ''Unknown error'')\<rparr>) \<and>
    (\<forall>response. fetch rt (api_url cfg) (fetch_request rt cfg (message v) (parse_mode v)) =
         Inr response \<and>
       json_result response = Inr (JObj resp) \<and> \<not> response_ok response \<longrightarrow>
       snd (processToolCall_dist rt cfg (ascii ''send_message'') args) =
         Inr \<lparr>tc_type = ascii ''text'',
              tc_text = ascii ''Error: '' @
                ascii ''Failed to send Telegram message: Telegram API error: '' @
                (if truthy (field resp ''description'')
                 then ds
                 else ascii ''HTTP '' @ digits (status response) @ ascii '' error'')\<rparr>) \<and>
    (\<forall>response. fetch rt (api_url cfg) (fetch_request rt cfg (message v) (parse_mode v)) =
         Inr response \<and>
       json_result response = Inr (JObj resp) \<and> response_ok response \<and>
       \<not> truthy (field resp ''ok'') \<longrightarrow>
       snd (processToolCall_dist rt cfg (ascii ''send_message'') args) =
         Inr \<lparr>tc_type = ascii ''text'',
              tc_text = ascii ''Error: '' @
                ascii ''Failed to send Telegram message: Telegram API returned error: '' @
                (if truthy (field resp ''description'')
                 then ds
                 else ascii ''Unknown error'')\<rparr>) \<and>
    (\<forall>am response. axios_post rt (api_url cfg) (axios_params cfg (message v) (parse_mode v)) =
         Inl (AxiosError am (Some response)) \<and>
       data response = JObj resp \<longrightarrow>
       snd (processToolCall_axios rt cfg (ascii ''send_message'') args) =
         Inr \<lparr>tc_type = ascii ''text'',
              tc_text = ascii ''Error: '' @ ascii ''Failed to send Telegram message: '' @
                (if truthy (field resp ''description'')
                 then ds
                 else if am \<noteq> [] then am else ascii ''Unknown error'')\<rparr>) \<and>
    (\<forall>response. axios_post rt (api_url cfg) (axios_params cfg (message v) (parse_mode v)) =
         Inr response \<and>
       data response = JObj resp \<and> \<not> truthy (field resp ''ok'') \<longrightarrow>
       snd (processToolCall_axios rt cfg (ascii ''send_message'') args) =
         Inr \<lparr>tc_type = ascii ''text'',
              tc_text = ascii ''Error: '' @
                ascii ''Failed to send Telegram message: Telegram API returned error: '' @
                (if truthy (field resp ''description'')
                 then ds
                 else ascii ''Unknown error'')\<rparr>)"
proof (intro conjI allI impI)
  fix out
  assume "execSync rt (curl_command cfg (message v) (parse_mode v)) = Inr out \<and>
    JSON_parse rt out = Inr (JObj resp) \<and> \<not> truthy (field resp ''ok'')"
  then have "snd (sendTelegramMessage rt cfg (message v) (parse_mode v)) =
      Inl (Error (ascii ''Telegram API error: '' @
        (if truthy (field resp ''description'') then ds
         else ascii ''Unknown error'')))"
    using conv by (intro send_not_ok [where out = out and ds = ds]) simp_all
  with valid show "snd (processToolCall rt cfg (ascii ''send_message'') args) =
      Inr \<lparr>tc_type = ascii ''text'',
           tc_text = ascii ''Error: '' @ ascii ''Telegram API error: '' @
             (if truthy (field resp ''description'')
              then ds
              else ascii ''Unknown error'')\<rparr>"
    by (rule gateway_send_error)
next
  fix response
  assume "fetch rt (api_url cfg) (fetch_request rt cfg (message v) (parse_mode v)) =
      Inr response \<and>
    json_result response = Inr (JObj resp) \<and> \<not> response_ok response"
  then have "snd (sendTelegramMessage_dist rt cfg (message v) (parse_mode v)) =
      Inl (Error (ascii ''Failed to send Telegram message: Telegram API error: '' @
        (if truthy (field resp ''description'') then ds
         else ascii ''HTTP '' @ digits (status response) @ ascii '' error'')))"
    using conv by (intro send_dist_http_error [where ds = ds]) simp_all
  with valid show "snd (processToolCall_dist rt cfg (ascii ''send_message'') args) =
      Inr \<lparr>tc_type = ascii ''text'',
           tc_text = ascii ''Error: '' @
             ascii ''Failed to send Telegram message: Telegram API error: '' @
             (if truthy (field resp ''description'')
              then ds
              else ascii ''HTTP '' @ digits (status response) @ ascii '' error'')\<rparr>"
    by (rule gateway_dist_send_error)
next
  fix response
  assume "fetch rt (api_url cfg) (fetch_request rt cfg (message v) (parse_mode v)) =
      Inr response \<and>
    json_result response = Inr (JObj resp) \<and> response_ok response \<and>
    \<not> truthy (field resp ''ok'')"
  then have "snd (sendTelegramMessage_dist rt cfg (message v) (parse_mode v)) =
      Inl (Error (ascii ''Failed to send Telegram message: Telegram API returned error: '' @
        (if truthy (field resp ''description'') then ds
         else ascii ''Unknown error'')))"
    using conv by (intro send_dist_not_ok [where response = response and ds = ds]) simp_all
  with valid show "snd (processToolCall_dist rt cfg (ascii ''send_message'') args) =
      Inr \<lparr>tc_type = ascii ''text'',
           tc_text = ascii ''Error: '' @
             ascii ''Failed to send Telegram message: Telegram API returned error: '' @
             (if truthy (field resp ''description'')
              then ds
              else ascii ''Unknown error'')\<rparr>"
    by (rule gateway_dist_send_error)
next
  fix am response
  assume "axios_post rt (api_url cfg) (axios_params cfg (message v) (parse_mode v)) =
      Inl (AxiosError am (Some response)) \<and>
    data response = JObj resp"
  then have "snd (sendTelegramMessage_axios rt cfg (message v) (parse_mode v)) =
      Inl (Error (ascii ''Failed to send Telegram message: '' @
        (if truthy (field resp ''description'') then ds
         else if am \<noteq> [] then am else ascii ''Unknown error'')))"
    using conv by (intro send_axios_http_error [where response = response and ds = ds]) simp_all
  with valid show "snd (processToolCall_axios rt cfg (ascii ''send_message'') args) =
      Inr \<lparr>tc_type = ascii ''text'',
           tc_text = ascii ''Error: '' @ ascii ''Failed to send Telegram message: '' @
             (if truthy (field resp ''description'')
              then ds
              else if am \<noteq> [] then am else ascii ''Unknown error'')\<rparr>"
    by (rule gateway_axios_send_error)
next
  fix response
  assume "axios_post rt (api_url cfg) (axios_params cfg (message v) (parse_mode v)) =
      Inr response \<and>
    data response = JObj resp \<and> \<not> truthy (field resp ''ok'')"
  then have "snd (sendTelegramMessage_axios rt cfg (message v) (parse_mode v)) =
      Inl (Error (ascii ''Failed to send Telegram message: Telegram API returned error: '' @
        (if truthy (field resp ''description'') then ds
         else ascii ''Unknown error'')))"
    using conv by (intro send_axios_not_ok [where response = response and ds = ds]) simp_all
  with valid show "snd (processToolCall_axios rt cfg (ascii ''send_message'') args) =
      Inr \<lparr>tc_type = ascii ''text'',
           tc_text = ascii ''Error: '' @
             ascii ''Failed to send Telegram message: Telegram API returned error: '' @
             (if truthy (field resp ''description'')
              then ds
              else ascii ''Unknown error'')\<rparr>"
    by (rule gateway_axios_send_error)
qed

text \<open>
  The answer \<open>{"ok": false, "description": "Bad Request: chat not found"}\<close> with status
  400, in the axios and fetch variants.
\<close>

theorem remote_error_rendering_witness:
  "snd (processToolCall_axios (fake_remote 400 chat_not_found) sample_config
          (ascii ''send_message'') [(ascii ''message'', JStr (ascii ''hi''))]) =
     Inr \<lparr>tc_type = ascii ''text'',
          tc_text = ascii ''Error: Failed to send Telegram message: Bad Request: chat not found''\<rparr> \<and>
   snd (processToolCall_dist (fake_remote 400 chat_not_found) sample_config
          (ascii ''send_message'') [(ascii ''message'', JStr (ascii ''hi''))]) =
     Inr \<lparr>tc_type = ascii ''text'',
          tc_text = ascii ''Error: Failed to send Telegram message: Telegram API error: Bad Request: chat not found''\<rparr>"
proof -
  let ?rt = "fake_remote 400 chat_not_found"
  let ?args = "[(ascii ''message'', JStr (ascii ''hi''))]"
  let ?v = "\<lparr>message = ascii ''hi'', parse_mode = None\<rparr>"
  let ?resp = "[(ascii ''ok'', JBool False),
                (ascii ''description'', JStr (ascii ''Bad Request: chat not found''))]"
  let ?response = "\<lparr>axios_status = 400, data = chat_not_found\<rparr>"
  have valid: "SendMessageSchema_parse (errorMap ?rt) ?args = Inr ?v"
    by (rule parse_hi)
  have described: "field ?resp ''description'' = Some (JStr (ascii ''Bad Request: chat not found''))"
    by (simp add: field_def ascii_def)
  have conv: "template ?rt (field ?resp ''description'') =
      Inr (ascii ''Bad Request: chat not found'')"
    unfolding described by (simp add: template_def)
  note T = remote_error_rendering [OF valid conv, of sample_config]
  have thrown: "axios_post ?rt (api_url sample_config)
      (axios_params sample_config (message ?v) (parse_mode ?v)) =
      Inl (AxiosError (ascii ''Request failed with status code '' @ digits 400) (Some ?response))"
    by (simp add: fake_remote_def)
  have body: "data ?response = JObj ?resp"
    by (simp add: chat_not_found_def)
  from T thrown body have
    "snd (processToolCall_axios ?rt sample_config (ascii ''send_message'') ?args) =
       Inr \<lparr>tc_type = ascii ''text'',
            tc_text = ascii ''Error: '' @ ascii ''Failed to send Telegram message: '' @
              (if truthy (field ?resp ''description'')
               then ascii ''Bad Request: chat not found''
               else if ascii ''Request failed with status code '' @ digits 400 \<noteq> []
                 then ascii ''Request failed with status code '' @ digits 400
                 else ascii ''Unknown error'')\<rparr>"
    by blast
  then have axios_variant:
    "snd (processToolCall_axios ?rt sample_config (ascii ''send_message'') ?args) =
       Inr \<lparr>tc_type = ascii ''text'',
            tc_text = ascii ''Error: Failed to send Telegram message: Bad Request: chat not found''\<rparr>"
    unfolding described by (simp add: ascii_def)
  let ?fetched = "\<lparr>status = 400, json_result = Inr chat_not_found\<rparr>"
  have fetched: "fetch ?rt (api_url sample_config)
      (fetch_request ?rt sample_config (message ?v) (parse_mode ?v)) = Inr ?fetched"
    by (simp add: fake_remote_def)
  have status: "json_result ?fetched = Inr (JObj ?resp)" "\<not> response_ok ?fetched"
    by (simp_all add: chat_not_found_def response_ok_def)
  from T fetched status have
    "snd (processToolCall_dist ?rt sample_config (ascii ''send_message'') ?args) =
       Inr \<lparr>tc_type = ascii ''text'',
            tc_text = ascii ''Error: '' @
              ascii ''Failed to send Telegram message: Telegram API error: '' @
              (if truthy (field ?resp ''description'')
               then ascii ''Bad Request: chat not found''
               else ascii ''HTTP '' @ digits (status ?fetched) @ ascii '' error'')\<rparr>"
    by blast
  then have fetch_variant:
    "snd (processToolCall_dist ?rt sample_config (ascii ''send_message'') ?args) =
       Inr \<lparr>tc_type = ascii ''text'',
            tc_text = ascii ''Error: Failed to send Telegram message: Telegram API error: Bad Request: chat not found''\<rparr>"
    unfolding described by (simp add: ascii_def)
  from axios_variant fetch_variant show ?thesis by (intro conjI)
qed

text \<open>
  The statement of the specification fails on src/index.ts: the failure of the remote is
  rendered without "Failed to send Telegram message: ".
\<close>

theorem remote_error_text_of_shell_variant:
  "snd (processToolCall (fake_remote 400 chat_not_found) sample_config
          (ascii ''send_message'') [(ascii ''message'', JStr (ascii ''hi''))]) =
     Inr \<lparr>tc_type = ascii ''text'',
          tc_text = ascii ''Error: Telegram API error: Bad Request: chat not found''\<rparr> \<and>
   ascii ''Error: Telegram API error: Bad Request: chat not found'' \<noteq>
   ascii ''Error: Failed to send Telegram message: Bad Request: chat not found''"
proof -
  let ?rt = "fake_remote 400 chat_not_found"
  let ?resp = "[(ascii ''ok'', JBool False),
                (ascii ''description'', JStr (ascii ''Bad Request: chat not found''))]"
  have valid: "SendMessageSchema_parse (errorMap ?rt) [(ascii ''message'', JStr (ascii ''hi''))] =
      Inr \<lparr>message = ascii ''hi'', parse_mode = None\<rparr>"
    by (rule parse_hi)
  have described: "field ?resp ''description'' = Some (JStr (ascii ''Bad Request: chat not found''))"
    by (simp add: field_def ascii_def)
  have conv: "template ?rt (field ?resp ''description'') =
      Inr (ascii ''Bad Request: chat not found'')"
    unfolding described by (simp add: template_def)
  have "snd (sendTelegramMessage ?rt sample_config (ascii ''hi'') None) =
      Inl (Error (ascii ''Telegram API error: '' @
        (if truthy (field ?resp ''description'') then ascii ''Bad Request: chat not found''
         else ascii ''Unknown error'')))"
    using conv
    by (intro send_not_ok [where out = "[]" and ds = "ascii ''Bad Request: chat not found''"])
      (simp_all add: fake_remote_def chat_not_found_def field_def)
  then have "snd (sendTelegramMessage ?rt sample_config (ascii ''hi'') None) =
      Inl (Error (ascii ''Telegram API error: Bad Request: chat not found''))"
    unfolding described by (simp add: ascii_def)
  with valid have "snd (processToolCall ?rt sample_config (ascii ''send_message'')
      [(ascii ''message'', JStr (ascii ''hi''))]) =
      Inr \<lparr>tc_type = ascii ''text'',
           tc_text = ascii ''Error: '' @ ascii ''Telegram API error: Bad Request: chat not found''\<rparr>"
    by (intro gateway_send_error [where v = "\<lparr>message = ascii ''hi'', parse_mode = None\<rparr>"])
      simp_all
  then show ?thesis by (simp add: ascii_def)
qed

text \<open>
  C6 on a message with an ampersand. The shell variant hands the shell a command whose
  form data is \<open>text=a&b\<close>, not URL-encoded, so that the field \<open>text\<close> of the
  request is \<open>a\<close>; the axios variant posts the message itself. A message with a
  command substitution reaches the shell as it is.
\<close>

theorem shell_variant_sends_unencoded_text:
  \<open>fst (sendTelegramMessage rt sample_config (ascii ''a&b'') None) =
     [ExecSync (ascii ''curl -s -X POST "https://api.telegram.org/bot123:ABC/sendMessage" -d "chat_id=42" -d "text=a&b"'')] \<and>
   fst (sendTelegramMessage_axios rt sample_config (ascii ''a&b'') None) =
     [AxiosPost (ascii ''https://api.telegram.org/bot123:ABC/sendMessage'')
        [(ascii ''chat_id'', ascii ''42''), (ascii ''text'', ascii ''a&b'')]] \<and>
   fst (sendTelegramMessage rt sample_config (ascii ''$(id)'') None) =
     [ExecSync (ascii ''curl -s -X POST "https://api.telegram.org/bot123:ABC/sendMessage" -d "chat_id=42" -d "text=$(id)"'')]\<close>
  by (simp add: exec_effects axios_effects curl_command_shape axios_params_def api_url_def
      TELEGRAM_API_BASE_def sample_config_def replace_dquotes_def dquote_def ascii_def)

text \<open>
  C7: for every tool name other than "send_message" and every arguments mapping, the
  reply is the text "Unknown tool: " followed by the name, with no error flag; the
  arguments are not looked at and nothing is sent.
\<close>

theorem unknown_tool_text:
  assumes "toolName \<noteq> ascii ''send_message''"
  shows "processToolCall rt cfg toolName toolInput =
       ([], Inr \<lparr>tc_type = ascii ''text'', tc_text = ascii ''Unknown tool: '' @ toolName\<rparr>) \<and>
     CallTool_handler rt cfg \<lparr>name = toolName, arguments = args\<rparr> =
       ([], Inr \<lparr>content = [\<lparr>tc_type = ascii ''text'',
                              tc_text = ascii ''Unknown tool: '' @ toolName\<rparr>],
                  isError = None\<rparr>)"
  using assms by (simp add: CallTool_handler_def processToolCall_def)

theorem unknown_tool_text_witness:
  "processToolCall unreachable_remote sample_config (ascii ''delete_message'')
       [(ascii ''message'', JNum 7)] =
     ([], Inr \<lparr>tc_type = ascii ''text'', tc_text = ascii ''Unknown tool: delete_message''\<rparr>)"
proof -
  have other: "ascii ''delete_message'' \<noteq> ascii ''send_message''"
    by (simp add: ascii_def)
  from unknown_tool_text [OF other, of unreachable_remote sample_config "[(ascii ''message'', JNum 7)]"]
  show ?thesis by (simp add: ascii_def)
qed

text \<open>
  C8: at startup, when TELEGRAM_BOT_TOKEN or TELEGRAM_CHAT_ID is absent or empty, the
  process writes the diagnostic, exits with code 1 and answers no request; otherwise both
  constants are the non-empty values of the environment, and every request of the run is
  answered with these same two values.
\<close>

theorem startup_contract:
  "(env ''TELEGRAM_BOT_TOKEN'' = None \<or> env ''TELEGRAM_BOT_TOKEN'' = Some [] \<or>
    env ''TELEGRAM_CHAT_ID'' = None \<or> env ''TELEGRAM_CHAT_ID'' = Some [] \<longrightarrow>
      (\<exists>out. run_server rt env requests =
         \<lparr>stderr = out @ [ascii ''Error: TELEGRAM_BOT_TOKEN and TELEGRAM_CHAT_ID environment variables are required''],
          exit_code = Some 1, replies = []\<rparr>)) \<and>
   (\<not> (env ''TELEGRAM_BOT_TOKEN'' = None \<or> env ''TELEGRAM_BOT_TOKEN'' = Some [] \<or>
       env ''TELEGRAM_CHAT_ID'' = None \<or> env ''TELEGRAM_CHAT_ID'' = Some []) \<longrightarrow>
      (\<exists>out t c. env ''TELEGRAM_BOT_TOKEN'' = Some t \<and> t \<noteq> [] \<and>
         env ''TELEGRAM_CHAT_ID'' = Some c \<and> c \<noteq> [] \<and>
         run_server rt env requests =
           \<lparr>stderr = out, exit_code = None,
            replies = map (CallTool_handler rt \<lparr>BOT_TOKEN = t, CHAT_ID = c\<rparr>) requests\<rparr>))"
proof (intro conjI impI)
  assume "env ''TELEGRAM_BOT_TOKEN'' = None \<or> env ''TELEGRAM_BOT_TOKEN'' = Some [] \<or>
    env ''TELEGRAM_CHAT_ID'' = None \<or> env ''TELEGRAM_CHAT_ID'' = Some []"
  then obtain out where "startup env =
      (out @ [ascii ''Error: TELEGRAM_BOT_TOKEN and TELEGRAM_CHAT_ID environment variables are required''],
       Inl 1)"
    using startup_exit by blast
  then show "\<exists>out. run_server rt env requests =
      \<lparr>stderr = out @ [ascii ''Error: TELEGRAM_BOT_TOKEN and TELEGRAM_CHAT_ID environment variables are required''],
       exit_code = Some 1, replies = []\<rparr>"
    by (auto simp: run_exit)
next
  assume "\<not> (env ''TELEGRAM_BOT_TOKEN'' = None \<or> env ''TELEGRAM_BOT_TOKEN'' = Some [] \<or>
    env ''TELEGRAM_CHAT_ID'' = None \<or> env ''TELEGRAM_CHAT_ID'' = Some [])"
  then obtain out t c where "env ''TELEGRAM_BOT_TOKEN'' = Some t" "t \<noteq> []"
    "env ''TELEGRAM_CHAT_ID'' = Some c" "c \<noteq> []"
    "startup env = (out, Inr \<lparr>BOT_TOKEN = t, CHAT_ID = c\<rparr>)"
    using startup_ok [of env] by blast
  then show "\<exists>out t c. env ''TELEGRAM_BOT_TOKEN'' = Some t \<and> t \<noteq> [] \<and>
      env ''TELEGRAM_CHAT_ID'' = Some c \<and> c \<noteq> [] \<and>
      run_server rt env requests =
        \<lparr>stderr = out, exit_code = None,
         replies = map (CallTool_handler rt \<lparr>BOT_TOKEN = t, CHAT_ID = c\<rparr>) requests\<rparr>"
    by (auto simp: run_ok)
qed

text \<open>
  A token without a chat id: the process exits before the request is looked at. With
  both: the request is answered with the two values.
\<close>

theorem startup_contract_witness:
  "(\<exists>out. run_server unreachable_remote [''TELEGRAM_BOT_TOKEN'' \<mapsto> ascii ''123:ABC'']
       [\<lparr>name = ascii ''send_message'', arguments = None\<rparr>] =
     \<lparr>stderr = out @ [ascii ''Error: TELEGRAM_BOT_TOKEN and TELEGRAM_CHAT_ID environment variables are required''],
      exit_code = Some 1, replies = []\<rparr>) \<and>
   (\<exists>out. run_server unreachable_remote
       [''TELEGRAM_BOT_TOKEN'' \<mapsto> ascii ''123:ABC'', ''TELEGRAM_CHAT_ID'' \<mapsto> ascii ''42'']
       [\<lparr>name = ascii ''send_message'', arguments = None\<rparr>] =
     \<lparr>stderr = out, exit_code = None,
      replies = [CallTool_handler unreachable_remote sample_config
                   \<lparr>name = ascii ''send_message'', arguments = None\<rparr>]\<rparr>)"
proof -
  let ?requests = "[\<lparr>name = ascii ''send_message'', arguments = None\<rparr>]"
  let ?env = "[''TELEGRAM_BOT_TOKEN'' \<mapsto> ascii ''123:ABC'']"
  let ?env2 = "[''TELEGRAM_BOT_TOKEN'' \<mapsto> ascii ''123:ABC'',
                ''TELEGRAM_CHAT_ID'' \<mapsto> ascii ''42'']"
  have missing: "?env ''TELEGRAM_BOT_TOKEN'' = None \<or> ?env ''TELEGRAM_BOT_TOKEN'' = Some [] \<or>
    ?env ''TELEGRAM_CHAT_ID'' = None \<or> ?env ''TELEGRAM_CHAT_ID'' = Some []"
    by simp
  from startup_contract [of ?env unreachable_remote ?requests] missing
  have exits: "\<exists>out. run_server unreachable_remote ?env ?requests =
      \<lparr>stderr = out @ [ascii ''Error: TELEGRAM_BOT_TOKEN and TELEGRAM_CHAT_ID environment variables are required''],
       exit_code = Some 1, replies = []\<rparr>"
    by blast
  have token: "?env2 ''TELEGRAM_BOT_TOKEN'' = Some (ascii ''123:ABC'')"
    and chat: "?env2 ''TELEGRAM_CHAT_ID'' = Some (ascii ''42'')"
    by simp_all
  have present: "\<not> (?env2 ''TELEGRAM_BOT_TOKEN'' = None \<or> ?env2 ''TELEGRAM_BOT_TOKEN'' = Some [] \<or>
    ?env2 ''TELEGRAM_CHAT_ID'' = None \<or> ?env2 ''TELEGRAM_CHAT_ID'' = Some [])"
    unfolding token chat by (simp add: ascii_def)
  from startup_contract [of ?env2 unreachable_remote ?requests] present
  obtain out t c where "?env2 ''TELEGRAM_BOT_TOKEN'' = Some t" "?env2 ''TELEGRAM_CHAT_ID'' = Some c"
    and run: "run_server unreachable_remote ?env2 ?requests =
      \<lparr>stderr = out, exit_code = None,
       replies = map (CallTool_handler unreachable_remote \<lparr>BOT_TOKEN = t, CHAT_ID = c\<rparr>) ?requests\<rparr>"
    by blast
  with token chat have "t = ascii ''123:ABC''" "c = ascii ''42''"
    by simp_all
  with run have serves: "\<exists>out. run_server unreachable_remote ?env2 ?requests =
      \<lparr>stderr = out, exit_code = None,
       replies = [CallTool_handler unreachable_remote sample_config
                    \<lparr>name = ascii ''send_message'', arguments = None\<rparr>]\<rparr>"
    by (simp add: sample_config_def)
  from exits serves show ?thesis by (intro conjI)
qed

text \<open>
  C9, as the program has it: a call of send_message without arguments is validated
  against the empty mapping, fails on the missing message, sends nothing and returns the
  text "Error: Invalid input: " followed by the reason of the missing message (the fetch
  and axios variants return "Invalid input: " followed by it).
\<close>

theorem no_arguments_invalid_input:
  "CallTool_handler rt cfg \<lparr>name = ascii ''send_message'', arguments = None\<rparr> =
     ([], Inr \<lparr>content = [\<lparr>tc_type = ascii ''text'',
                            tc_text = ascii ''Error: Invalid input: '' @
                              errorMap rt (InvalidType (ascii ''string'') None)\<rparr>],
                isError = None\<rparr>) \<and>
   SendMessageSchema_parse (errorMap rt) [] =
     Inl [Issue invalid_type [ascii ''message''] (errorMap rt (InvalidType (ascii ''string'') None))] \<and>
   processToolCall_dist rt cfg (ascii ''send_message'') [] =
     ([], Inr \<lparr>tc_type = ascii ''text'',
               tc_text = ascii ''Invalid input: '' @
                 errorMap rt (InvalidType (ascii ''string'') None)\<rparr>) \<and>
   processToolCall_axios rt cfg (ascii ''send_message'') [] =
     ([], Inr \<lparr>tc_type = ascii ''text'',
               tc_text = ascii ''Invalid input: '' @
                 errorMap rt (InvalidType (ascii ''string'') None)\<rparr>)"
  by (simp add: handler_no_arguments gateway_dist_invalid [OF parse_no_arguments]
      gateway_axios_invalid [OF parse_no_arguments] parse_no_arguments)

theorem no_arguments_invalid_input_witness:
  "CallTool_handler unreachable_remote sample_config
       \<lparr>name = ascii ''send_message'', arguments = None\<rparr> =
     ([], Inr \<lparr>content = [\<lparr>tc_type = ascii ''text'',
                            tc_text = ascii ''Error: Invalid input: Required''\<rparr>],
                isError = None\<rparr>)"
  using no_arguments_invalid_input [of unreachable_remote sample_config]
  by (simp add: unreachable_remote_def ascii_def)

text \<open>
  The statement of the specification fails on src/index.ts: the text does not begin with
  "Invalid input: ".
\<close>

theorem no_arguments_text_has_error_prefix:
  "snd (CallTool_handler unreachable_remote sample_config
          \<lparr>name = ascii ''send_message'', arguments = None\<rparr>) =
     Inr \<lparr>content = [\<lparr>tc_type = ascii ''text'',
                       tc_text = ascii ''Error: Invalid input: Required''\<rparr>],
          isError = None\<rparr> \<and>
   take (length (ascii ''Invalid input: '')) (ascii ''Error: Invalid input: Required'') \<noteq>
     ascii ''Invalid input: ''"
proof -
  have "errorMap unreachable_remote (InvalidType (ascii ''string'') None) = ascii ''Required''"
    by (simp add: unreachable_remote_def)
  then have "snd (CallTool_handler unreachable_remote sample_config
      \<lparr>name = ascii ''send_message'', arguments = None\<rparr>) =
      Inr \<lparr>content = [\<lparr>tc_type = ascii ''text'',
                        tc_text = ascii ''Error: Invalid input: '' @ ascii ''Required''\<rparr>],
           isError = None\<rparr>"
    by (simp add: handler_no_arguments)
  then show ?thesis by (simp add: ascii_def)
qed

text \<open>
  C10, as the program has it: the shell variant executes one command, the string
  \<open>curl -s -X POST "<url>" -d "chat_id=<chat id>" -d "text=<text>"\<close> (and
  \<open> -d "parse_mode=<parse mode>"\<close> when one is given), where the text is the message
  with every double quote replaced by a backslash and a double quote and every other
  code unit copied as it is; nothing else is escaped or URL-encoded. The text placed in
  the command differs from the message exactly when the message has a double quote; a
  valid message with one exists.
\<close>

theorem shell_command_escapes_only_double_quotes:
  \<open>fst (sendTelegramMessage rt cfg msg pm) = [ExecSync (curl_command cfg msg pm)] \<and>
   curl_command cfg msg pm =
     ascii ''curl -s -X POST "'' @ api_url cfg @
     ascii ''" -d "chat_id='' @ CHAT_ID cfg @
     ascii ''" -d "text='' @ replace_dquotes msg @ ascii ''"'' @
     (case pm of
        None \<Rightarrow> []
      | Some p \<Rightarrow>
          if p \<noteq> [] then ascii '' -d "parse_mode='' @ p @ ascii ''"'' else []) \<and>
   replace_dquotes [] = [] \<and>
   replace_dquotes (c # cs) =
     (if c = 0x22 then [0x5C, 0x22] else [c]) @ replace_dquotes cs \<and>
   (replace_dquotes msg \<noteq> msg \<longleftrightarrow> 0x22 \<in> set msg) \<and>
   (\<exists>m. 1 \<le> length m \<and> length m \<le> 4096 \<and> replace_dquotes m \<noteq> m)\<close>
proof -
  have command: \<open>curl_command cfg msg pm =
     ascii ''curl -s -X POST "'' @ api_url cfg @
     ascii ''" -d "chat_id='' @ CHAT_ID cfg @
     ascii ''" -d "text='' @ replace_dquotes msg @ ascii ''"'' @
     (case pm of
        None \<Rightarrow> []
      | Some p \<Rightarrow>
          if p \<noteq> [] then ascii '' -d "parse_mode='' @ p @ ascii ''"'' else [])\<close>
    unfolding curl_command_shape by (simp add: ascii_def dquote_def split: option.splits)
  have step: "replace_dquotes (c # cs) =
      (if c = 0x22 then [0x5C, 0x22] else [c]) @ replace_dquotes cs"
    by (simp add: replace_dquotes_Cons dquote_def backslash_def)
  have differs: "replace_dquotes msg \<noteq> msg \<longleftrightarrow> 0x22 \<in> set msg"
    using replace_dquotes_id [of msg] by (simp add: dquote_def)
  have "1 \<le> length [dquote] \<and> length [dquote] \<le> 4096 \<and> replace_dquotes [dquote] \<noteq> [dquote]"
    by (simp add: replace_dquotes_def)
  then have some: "\<exists>m. 1 \<le> length m \<and> length m \<le> 4096 \<and> replace_dquotes m \<noteq> m"
    by blast
  from exec_effects command replace_dquotes_Nil step differs some
  show ?thesis by (intro conjI)
qed

text \<open>
  The message \<open>say "hi" to $USER\<close>: the quotes are escaped, the dollar sign is not.
\<close>

theorem shell_command_escapes_only_double_quotes_witness:
  \<open>curl_command sample_config (ascii ''say "hi" to $USER'') None =
     ascii ''curl -s -X POST "https://api.telegram.org/bot123:ABC/sendMessage" -d "chat_id=42" -d "text=say '' @
     [0x5C] @ ascii ''"hi'' @ [0x5C] @ ascii ''" to $USER"''\<close>
proof -
  note T = shell_command_escapes_only_double_quotes
    [of unreachable_remote sample_config \<open>ascii ''say "hi" to $USER''\<close> None]
  then have \<open>curl_command sample_config (ascii ''say "hi" to $USER'') None =
     ascii ''curl -s -X POST "'' @ api_url sample_config @
     ascii ''" -d "chat_id='' @ CHAT_ID sample_config @
     ascii ''" -d "text='' @ replace_dquotes (ascii ''say "hi" to $USER'') @ ascii ''"''\<close>
    by simp
  then show ?thesis
    by (simp add: api_url_def TELEGRAM_API_BASE_def sample_config_def replace_dquotes_def
        dquote_def backslash_def ascii_def)
qed

text \<open>
  The statement of the specification fails on a message with a dollar sign and a
  backtick: the text placed in the command is the message itself.
\<close>

theorem dollar_and_backtick_are_embedded_unchanged:
  \<open>0x24 \<in> set (ascii ''$HOME `id`'') \<and> 0x60 \<in> set (ascii ''$HOME `id`'') \<and>
   1 \<le> length (ascii ''$HOME `id`'') \<and> length (ascii ''$HOME `id`'') \<le> 4096 \<and>
   replace_dquotes (ascii ''$HOME `id`'') = ascii ''$HOME `id`'' \<and>
   curl_command sample_config (ascii ''$HOME `id`'') None =
     ascii ''curl -s -X POST "https://api.telegram.org/bot123:ABC/sendMessage" -d "chat_id=42" -d "text=$HOME `id`"''\<close>
  by (simp add: curl_command_shape api_url_def TELEGRAM_API_BASE_def sample_config_def
      replace_dquotes_def dquote_def ascii_def)

end
